theory Spec2Isabelle
  imports Main "HOL-Library.AList" "HOL-Library.Word"
begin

section \<open>JavaScript values\<close>

text \<open>
  Values that cross the library's boundaries untyped (\<^verbatim>\<open>unknown\<close>, \<^verbatim>\<open>any\<close>, the result of
  \<^verbatim>\<open>JSON.parse\<close>) are values of \<open>jsval\<close>. An object is the list of its own enumerable
  properties in property order. Numbers are integers here: the only numbers the library
  computes with are array indices, and a number that is not a non-negative integer below
  the array's length reads \<^verbatim>\<open>undefined\<close> in either case. Strings are Isabelle strings.
\<close>

datatype jsval =
    JUndefined
  | JNull
  | JBool bool
  | JNum int
  | JStr string
  | JArr "jsval list"
  | JObj "(string \<times> jsval) list"

text \<open>What the source can throw.\<close>

datatype js_error =
    TypeError
  | SyntaxError
  | RangeError
  | InvalidCharacterError
  | JsError string
  | SHLError string jsval string

section \<open>Platform functions\<close>

text \<open>
  The library calls functions of the browser platform. They are modelled here from their
  standards, on the value domain above. A string is held as the list of its bytes in
  UTF-8, so the text encoder and decoder keep the representation; for ASCII text, the
  only text the functions below inspect character by character, bytes and UTF-16 code
  units coincide. Ill-formed UTF-8, which the decoder would replace by U+FFFD, and JSON
  numbers with a fraction or an exponent, which the parser below rejects, lie outside
  the model.
\<close>

text \<open>
  What differs from one JavaScript engine to the next is a parameter of the model:
  \<open>argument_limit\<close> is the number of arguments that the engine accepts in one call, beyond
  which the call throws a RangeError, and \<open>has_builtin\<close> tells which property names the
  built-in prototypes of the engine define (methods such as \<^verbatim>\<open>map\<close> or \<^verbatim>\<open>toString\<close>, and the
  accessor \<^verbatim>\<open>__proto__\<close>).
\<close>

datatype prototype_object =
    Array_prototype
  | String_prototype
  | Number_prototype
  | Boolean_prototype
  | Object_prototype

record engine =
  argument_limit :: int
  has_builtin :: "prototype_object \<Rightarrow> string \<Rightarrow> bool"

subsection \<open>Truthiness and property reads\<close>

fun truthy :: "jsval \<Rightarrow> bool" where
  "truthy JUndefined = False"
| "truthy JNull = False"
| "truthy (JBool b) = b"
| "truthy (JNum n) = (n \<noteq> 0)"
| "truthy (JStr s) = (s \<noteq> [])"
| "truthy (JArr xs) = True"
| "truthy (JObj kvs) = True"

text \<open>\<^verbatim>\<open>v.k\<close> for a \<open>v\<close> that is neither \<^verbatim>\<open>undefined\<close> nor \<^verbatim>\<open>null\<close>, at the fixed keys the
  library reads (none of them a property of a string, an array or a primitive).\<close>

definition property :: "jsval \<Rightarrow> string \<Rightarrow> jsval" where
  "property v k =
     (case v of
        JObj kvs \<Rightarrow> (case map_of kvs k of None \<Rightarrow> JUndefined | Some x \<Rightarrow> x)
      | _ \<Rightarrow> JUndefined)"

text \<open>\<^verbatim>\<open>v?.k\<close>.\<close>

definition optional_property :: "jsval \<Rightarrow> string \<Rightarrow> jsval" where
  "optional_property v k = property v k"

text \<open>\<^verbatim>\<open>v?.[0]\<close>.\<close>

definition optional_first :: "jsval \<Rightarrow> jsval" where
  "optional_first v =
     (case v of
        JArr xs \<Rightarrow> (case xs of [] \<Rightarrow> JUndefined | x # _ \<Rightarrow> x)
      | JStr s \<Rightarrow> (case s of [] \<Rightarrow> JUndefined | c # _ \<Rightarrow> JStr [c])
      | JObj kvs \<Rightarrow> (case map_of kvs ''0'' of None \<Rightarrow> JUndefined | Some x \<Rightarrow> x)
      | _ \<Rightarrow> JUndefined)"

definition is_array :: "jsval \<Rightarrow> bool" where
  "is_array v = (case v of JArr _ \<Rightarrow> True | _ \<Rightarrow> False)"

text \<open>A string that may be \<^verbatim>\<open>null\<close> or \<^verbatim>\<open>undefined\<close> (\<open>None\<close>) is truthy when it is a
  non-empty string.\<close>

definition truthy_string :: "string option \<Rightarrow> bool" where
  "truthy_string s = (case s of None \<Rightarrow> False | Some x \<Rightarrow> x \<noteq> [])"

subsection \<open>JSON.stringify and JSON.parse\<close>

definition join :: "string \<Rightarrow> string list \<Rightarrow> string" where
  "join sep xs = (case xs of [] \<Rightarrow> [] | x # rest \<Rightarrow> x @ concat (map (\<lambda>y. sep @ y) rest))"

definition hex_digit :: "nat \<Rightarrow> char" where
  "hex_digit n = (''0123456789abcdef'') ! (n mod 16)"

definition dec_digit :: "nat \<Rightarrow> char" where
  "dec_digit n = (''0123456789'') ! (n mod 10)"

fun decimal :: "nat \<Rightarrow> string" where
  "decimal n = (if n < 10 then [dec_digit n] else decimal (n div 10) @ [dec_digit n])"

declare decimal.simps [simp del]

definition number_text :: "int \<Rightarrow> string" where
  "number_text i = (if i < 0 then CHR ''-'' # decimal (nat (- i)) else decimal (nat i))"

definition escape_char :: "char \<Rightarrow> string" where
  "escape_char c =
     (if c = CHR 0x22 then [CHR 0x5C, CHR 0x22]
      else if c = CHR 0x5C then [CHR 0x5C, CHR 0x5C]
      else if c = CHR 0x08 then [CHR 0x5C, CHR ''b'']
      else if c = CHR 0x0C then [CHR 0x5C, CHR ''f'']
      else if c = CHR 0x0A then [CHR 0x5C, CHR ''n'']
      else if c = CHR 0x0D then [CHR 0x5C, CHR ''r'']
      else if c = CHR 0x09 then [CHR 0x5C, CHR ''t'']
      else if (of_char c :: nat) < 32 then
        [CHR 0x5C, CHR ''u'', CHR ''0'', CHR ''0'', hex_digit (of_char c div 16), hex_digit (of_char c)]
      else [c])"

definition quote :: "string \<Rightarrow> string" where
  "quote s = CHR 0x22 # concat (map escape_char s) @ [CHR 0x22]"

fun JSON_stringify :: "jsval \<Rightarrow> string option"
  and stringify_elements :: "jsval list \<Rightarrow> string list"
  and stringify_members :: "(string \<times> jsval) list \<Rightarrow> string list" where
  "JSON_stringify JUndefined = None"
| "JSON_stringify JNull = Some ''null''"
| "JSON_stringify (JBool b) = Some (if b then ''true'' else ''false'')"
| "JSON_stringify (JNum n) = Some (number_text n)"
| "JSON_stringify (JStr s) = Some (quote s)"
| "JSON_stringify (JArr xs) = Some (''['' @ join '','' (stringify_elements xs) @ '']'')"
| "JSON_stringify (JObj kvs) = Some (''{'' @ join '','' (stringify_members kvs) @ ''}'')"
| "stringify_elements [] = []"
| "stringify_elements (x # xs) =
     (case JSON_stringify x of None \<Rightarrow> ''null'' | Some t \<Rightarrow> t) # stringify_elements xs"
| "stringify_members [] = []"
| "stringify_members ((k, v) # kvs) =
     (case JSON_stringify v of
        None \<Rightarrow> stringify_members kvs
      | Some t \<Rightarrow> (quote k @ '':'' @ t) # stringify_members kvs)"


text \<open>
  The parser is a recursive descent over the text, with the text's length as fuel (every
  call below the first consumes a character before it recurses).
\<close>

definition is_ws :: "char \<Rightarrow> bool" where
  "is_ws c = (c = CHR 0x20 \<or> c = CHR 0x09 \<or> c = CHR 0x0A \<or> c = CHR 0x0D)"

definition skip_ws :: "string \<Rightarrow> string" where
  "skip_ws s = dropWhile is_ws s"

definition is_digit :: "char \<Rightarrow> bool" where
  "is_digit c = (48 \<le> (of_char c :: nat) \<and> (of_char c :: nat) \<le> 57)"

definition digit_value :: "char \<Rightarrow> nat" where
  "digit_value c = of_char c - 48"

definition hex_value :: "char \<Rightarrow> nat option" where
  "hex_value c =
     (let n = (of_char c :: nat)
      in if 48 \<le> n \<and> n \<le> 57 then Some (n - 48)
         else if 97 \<le> n \<and> n \<le> 102 then Some (n - 87)
         else if 65 \<le> n \<and> n \<le> 70 then Some (n - 55)
         else None)"

definition utf8_of_code_point :: "nat \<Rightarrow> string" where
  "utf8_of_code_point n =
     (if n < 128 then [char_of n]
      else if n < 2048 then [char_of (192 + n div 64), char_of (128 + n mod 64)]
      else [char_of (224 + n div 4096), char_of (128 + (n div 64) mod 64), char_of (128 + n mod 64)])"

fun parse_chars :: "string \<Rightarrow> string \<Rightarrow> (string \<times> string) option" where
  "parse_chars [] acc = None"
| "parse_chars (c # rest) acc =
     (if c = CHR 0x22 then Some (acc, rest)
      else if c = CHR 0x5C then
        (case rest of
           [] \<Rightarrow> None
         | e # rest' \<Rightarrow>
             if e = CHR 0x22 \<or> e = CHR 0x5C \<or> e = CHR ''/'' then parse_chars rest' (acc @ [e])
             else if e = CHR ''b'' then parse_chars rest' (acc @ [CHR 0x08])
             else if e = CHR ''f'' then parse_chars rest' (acc @ [CHR 0x0C])
             else if e = CHR ''n'' then parse_chars rest' (acc @ [CHR 0x0A])
             else if e = CHR ''r'' then parse_chars rest' (acc @ [CHR 0x0D])
             else if e = CHR ''t'' then parse_chars rest' (acc @ [CHR 0x09])
             else if e = CHR ''u'' then
               (case rest' of
                  h1 # h2 # h3 # h4 # rest'' \<Rightarrow>
                    (case (hex_value h1, hex_value h2, hex_value h3, hex_value h4) of
                       (Some a, Some b, Some c', Some d) \<Rightarrow>
                         parse_chars rest'' (acc @ utf8_of_code_point (((a * 16 + b) * 16 + c') * 16 + d))
                     | _ \<Rightarrow> None)
                | _ \<Rightarrow> None)
             else None)
      else if (of_char c :: nat) < 32 then None
      else parse_chars rest (acc @ [c]))"

fun parse_digits :: "string \<Rightarrow> nat \<Rightarrow> nat \<times> string" where
  "parse_digits [] acc = (acc, [])"
| "parse_digits (c # rest) acc =
     (if is_digit c then parse_digits rest (acc * 10 + digit_value c) else (acc, c # rest))"

definition parse_natural :: "string \<Rightarrow> (nat \<times> string) option" where
  "parse_natural s =
     (case s of
        [] \<Rightarrow> None
      | c # rest \<Rightarrow>
          if c = CHR ''0'' then Some (0, rest)
          else if is_digit c then Some (parse_digits (c # rest) 0)
          else None)"

definition parse_number :: "string \<Rightarrow> (int \<times> string) option" where
  "parse_number s =
     (case (case s of
              [] \<Rightarrow> None
            | c # rest \<Rightarrow>
                if c = CHR ''-'' then map_option (\<lambda>(n, r). (- int n, r)) (parse_natural rest)
                else map_option (\<lambda>(n, r). (int n, r)) (parse_natural s)) of
        None \<Rightarrow> None
      | Some (i, r) \<Rightarrow>
          (case r of
             [] \<Rightarrow> Some (i, r)
           | c # _ \<Rightarrow> if c = CHR ''.'' \<or> c = CHR ''e'' \<or> c = CHR ''E'' then None else Some (i, r)))"

fun parse_value :: "nat \<Rightarrow> string \<Rightarrow> (jsval \<times> string) option"
  and parse_elements :: "nat \<Rightarrow> string \<Rightarrow> jsval list \<Rightarrow> (jsval list \<times> string) option"
  and parse_members ::
    "nat \<Rightarrow> string \<Rightarrow> (string \<times> jsval) list \<Rightarrow> ((string \<times> jsval) list \<times> string) option" where
  "parse_value 0 s = None"
| "parse_value (Suc n) s =
     (let t = skip_ws s
      in if take 4 t = ''null'' then Some (JNull, drop 4 t)
         else if take 4 t = ''true'' then Some (JBool True, drop 4 t)
         else if take 5 t = ''false'' then Some (JBool False, drop 5 t)
         else (case t of
                 [] \<Rightarrow> None
               | c # r \<Rightarrow>
                   if c = CHR 0x22 then map_option (\<lambda>(x, r'). (JStr x, r')) (parse_chars r [])
                   else if c = CHR ''['' then
                     (case skip_ws r of
                        [] \<Rightarrow> None
                      | c' # r' \<Rightarrow>
                          if c' = CHR '']'' then Some (JArr [], r')
                          else map_option (\<lambda>(xs, r''). (JArr xs, r'')) (parse_elements n (c' # r') []))
                   else if c = CHR ''{'' then
                     (case skip_ws r of
                        [] \<Rightarrow> None
                      | c' # r' \<Rightarrow>
                          if c' = CHR ''}'' then Some (JObj [], r')
                          else map_option (\<lambda>(kvs, r''). (JObj kvs, r'')) (parse_members n (c' # r') []))
                   else map_option (\<lambda>(i, r'). (JNum i, r')) (parse_number t)))"
| "parse_elements 0 s acc = None"
| "parse_elements (Suc n) s acc =
     (case parse_value n s of
        None \<Rightarrow> None
      | Some (v, r) \<Rightarrow>
          (case skip_ws r of
             [] \<Rightarrow> None
           | c # r' \<Rightarrow>
               if c = CHR '','' then parse_elements n r' (acc @ [v])
               else if c = CHR '']'' then Some (acc @ [v], r')
               else None))"
| "parse_members 0 s acc = None"
| "parse_members (Suc n) s acc =
     (case skip_ws s of
        [] \<Rightarrow> None
      | q # r0 \<Rightarrow>
          if q \<noteq> CHR 0x22 then None
          else (case parse_chars r0 [] of
                  None \<Rightarrow> None
                | Some (k, r1) \<Rightarrow>
                    (case skip_ws r1 of
                       [] \<Rightarrow> None
                     | c # r2 \<Rightarrow>
                         if c \<noteq> CHR '':'' then None
                         else (case parse_value n r2 of
                                 None \<Rightarrow> None
                               | Some (v, r3) \<Rightarrow>
                                   (case skip_ws r3 of
                                      [] \<Rightarrow> None
                                    | d # r4 \<Rightarrow>
                                        if d = CHR '','' then parse_members n r4 (AList.update k v acc)
                                        else if d = CHR ''}'' then Some (AList.update k v acc, r4)
                                        else None)))))"

definition JSON_parse :: "string \<Rightarrow> jsval option" where
  "JSON_parse s =
     (case parse_value (Suc (length s)) s of
        None \<Rightarrow> None
      | Some (v, r) \<Rightarrow> if skip_ws r = [] then Some v else None)"

subsection \<open>TextEncoder, TextDecoder, btoa, atob\<close>

text \<open>
  A string being held as its UTF-8 bytes, \<^verbatim>\<open>te.encode(s)\<close> is the bytes of the
  representation and \<^verbatim>\<open>td.decode(bytes)\<close> reads them back.
\<close>

type_synonym byte = "8 word"

definition TextEncoder_encode :: "string \<Rightarrow> byte list" where
  "TextEncoder_encode s = map (\<lambda>c. of_nat (of_char c)) s"

definition TextDecoder_decode :: "byte list \<Rightarrow> string" where
  "TextDecoder_decode bs = map (\<lambda>b. char_of (unat b)) bs"

text \<open>
  \<^verbatim>\<open>String.fromCharCode(...bytes)\<close> is a call with one argument for each byte. It returns
  the binary string of the bytes, one code unit below 256 for each, which the model holds
  as the list of the bytes.
\<close>

definition String_fromCharCode :: "engine \<Rightarrow> byte list \<Rightarrow> js_error + byte list" where
  "String_fromCharCode E bytes =
     (if argument_limit E < int (length bytes) then Inl RangeError else Inr bytes)"

text \<open>
  \<^verbatim>\<open>btoa\<close> is called on such a binary string, and \<^verbatim>\<open>atob\<close> returns one, whose char codes
  the loop of \<^verbatim>\<open>ub64\<close> copies into the array. \<^verbatim>\<open>btoa\<close> is
  base64 with padding. \<^verbatim>\<open>atob\<close> is the forgiving decoder of the HTML standard: ASCII
  whitespace is removed; when the length is then a multiple of four, one or two padding
  characters at the end are removed; a length of one modulo four, or a character outside
  the alphabet, is an InvalidCharacterError; the bits left over by the last group are
  dropped.
\<close>

definition base64_alphabet :: string where
  "base64_alphabet = ''ABCDEFGHIJKLMNOPQRSTUVWXYZabcdefghijklmnopqrstuvwxyz0123456789+/''"

definition base64_char :: "nat \<Rightarrow> char" where
  "base64_char n = base64_alphabet ! n"

fun index_of :: "'a \<Rightarrow> 'a list \<Rightarrow> nat option" where
  "index_of c [] = None"
| "index_of c (x # xs) = (if c = x then Some 0 else map_option Suc (index_of c xs))"

definition base64_value :: "char \<Rightarrow> nat option" where
  "base64_value c = index_of c base64_alphabet"

fun btoa :: "byte list \<Rightarrow> string" where
  "btoa [] = []"
| "btoa [a] =
     [base64_char (unat a div 4), base64_char ((unat a mod 4) * 16), CHR ''='', CHR ''='']"
| "btoa [a, b] =
     [base64_char (unat a div 4), base64_char ((unat a mod 4) * 16 + unat b div 16),
      base64_char ((unat b mod 16) * 4), CHR ''='']"
| "btoa (a # b # c # rest) =
     [base64_char (unat a div 4), base64_char ((unat a mod 4) * 16 + unat b div 16),
      base64_char ((unat b mod 16) * 4 + unat c div 64), base64_char (unat c mod 64)] @ btoa rest"

fun sextets_to_bytes :: "nat list \<Rightarrow> byte list" where
  "sextets_to_bytes (w # x # y # z # rest) =
     [of_nat (w * 4 + x div 16), of_nat ((x mod 16) * 16 + y div 4), of_nat ((y mod 4) * 64 + z)]
       @ sextets_to_bytes rest"
| "sextets_to_bytes [w, x, y] = [of_nat (w * 4 + x div 16), of_nat ((x mod 16) * 16 + y div 4)]"
| "sextets_to_bytes [w, x] = [of_nat (w * 4 + x div 16)]"
| "sextets_to_bytes _ = []"

fun those_values :: "char list \<Rightarrow> nat list option" where
  "those_values [] = Some []"
| "those_values (c # cs) =
     (case base64_value c of
        None \<Rightarrow> None
      | Some v \<Rightarrow> map_option ((#) v) (those_values cs))"

definition is_ascii_whitespace :: "char \<Rightarrow> bool" where
  "is_ascii_whitespace c = (c = CHR 0x09 \<or> c = CHR 0x0A \<or> c = CHR 0x0C \<or> c = CHR 0x0D \<or> c = CHR 0x20)"

definition strip_padding :: "string \<Rightarrow> string" where
  "strip_padding s =
     (if length s mod 4 = 0 then
        (if 2 \<le> length s \<and> drop (length s - 2) s = ''=='' then take (length s - 2) s
         else if 1 \<le> length s \<and> drop (length s - 1) s = ''='' then take (length s - 1) s
         else s)
      else s)"

definition atob :: "string \<Rightarrow> js_error + byte list" where
  "atob s =
     (let d = strip_padding (filter (\<lambda>c. \<not> is_ascii_whitespace c) s)
      in if length d mod 4 = 1 then Inl InvalidCharacterError
         else (case those_values d of
                 None \<Rightarrow> Inl InvalidCharacterError
               | Some vs \<Rightarrow> Inr (sextets_to_bytes vs)))"

subsection \<open>String.prototype.replace with the library's patterns\<close>

text \<open>\<^verbatim>\<open>s.replace(/x/g, y)\<close> for one character \<open>x\<close>, and \<^verbatim>\<open>s.replace(/x+$/, '')\<close>.\<close>

definition replace_all :: "char \<Rightarrow> char \<Rightarrow> string \<Rightarrow> string" where
  "replace_all x y s = map (\<lambda>c. if c = x then y else c) s"

definition strip_trailing :: "char \<Rightarrow> string \<Rightarrow> string" where
  "strip_trailing x s = rev (dropWhile (\<lambda>c. c = x) (rev s))"

subsection \<open>URLSearchParams, encodeURIComponent\<close>

text \<open>
  The parser and the serializer of \<^verbatim>\<open>application/x-www-form-urlencoded\<close> in the URL
  standard, and the percent-encoding of \<^verbatim>\<open>encodeURIComponent\<close>.
\<close>

fun split_on :: "char \<Rightarrow> string \<Rightarrow> string list" where
  "split_on d [] = [[]]"
| "split_on d (c # cs) =
     (if c = d then [] # split_on d cs
      else (case split_on d cs of [] \<Rightarrow> [[c]] | x # xs \<Rightarrow> (c # x) # xs))"

text \<open>The byte of a \<^verbatim>\<open>%XX\<close> escape whose two digits are the first characters of \<open>rest\<close>.\<close>

definition escape_at :: "string \<Rightarrow> nat option" where
  "escape_at rest =
     (case rest of
        h1 # h2 # _ \<Rightarrow>
          (case (hex_value h1, hex_value h2) of
             (Some a, Some b) \<Rightarrow> Some (a * 16 + b)
           | _ \<Rightarrow> None)
      | _ \<Rightarrow> None)"

fun percent_decode :: "string \<Rightarrow> string" where
  "percent_decode [] = []"
| "percent_decode (c # rest) =
     (let e = (if c = CHR ''%'' then escape_at rest else None)
      in (case e of None \<Rightarrow> c | Some v \<Rightarrow> char_of v)
           # percent_decode (if e = None then rest else drop 2 rest))"

text \<open>One \<^verbatim>\<open>name=value\<close> sequence of the \<^verbatim>\<open>application/x-www-form-urlencoded\<close> parser.\<close>

definition parse_pair :: "string \<Rightarrow> string \<times> string" where
  "parse_pair s =
     (let name = takeWhile (\<lambda>c. c \<noteq> CHR ''='') s;
          val = drop (Suc (length name)) s;
          plus = replace_all (CHR ''+'') (CHR 0x20)
      in (percent_decode (plus name), percent_decode (plus val)))"

text \<open>\<^verbatim>\<open>new URLSearchParams(h)\<close> for a string: a leading \<^verbatim>\<open>?\<close> is dropped, empty sequences
  are skipped.\<close>

definition URLSearchParams :: "string \<Rightarrow> (string \<times> string) list" where
  "URLSearchParams init =
     (let s = (if take 1 init = ''?'' then drop 1 init else init)
      in map parse_pair (filter (\<lambda>x. x \<noteq> []) (split_on (CHR ''&'') s)))"

text \<open>\<^verbatim>\<open>p.get(name)\<close>: the first value of that name, or \<^verbatim>\<open>null\<close>.\<close>

definition params_get :: "(string \<times> string) list \<Rightarrow> string \<Rightarrow> string option" where
  "params_get p name = map_of p name"

definition HEX_digit :: "nat \<Rightarrow> char" where
  "HEX_digit n = (''0123456789ABCDEF'') ! (n mod 16)"

definition is_alphanumeric :: "char \<Rightarrow> bool" where
  "is_alphanumeric c =
     (let n = (of_char c :: nat)
      in (48 \<le> n \<and> n \<le> 57) \<or> (65 \<le> n \<and> n \<le> 90) \<or> (97 \<le> n \<and> n \<le> 122))"

definition percent_encode :: "char \<Rightarrow> string" where
  "percent_encode c = [CHR ''%'', HEX_digit (of_char c div 16), HEX_digit (of_char c)]"

definition encodeURIComponent :: "string \<Rightarrow> string" where
  "encodeURIComponent s =
     concat (map (\<lambda>c. if is_alphanumeric c \<or> c \<in> set ''-_.!~*'' \<or> c = CHR 0x27 \<or> c = CHR ''('' \<or> c = CHR '')''
                       then [c] else percent_encode c) s)"

definition form_encode :: "string \<Rightarrow> string" where
  "form_encode s =
     concat (map (\<lambda>c. if is_alphanumeric c \<or> c \<in> set ''*-._'' then [c]
                       else if c = CHR 0x20 then ''+'' else percent_encode c) s)"

text \<open>\<^verbatim>\<open>params.toString()\<close>.\<close>

definition params_toString :: "(string \<times> string) list \<Rightarrow> string" where
  "params_toString p = join ''&'' (map (\<lambda>(k, v). form_encode k @ ''='' @ form_encode v) p)"

section \<open>The envelope codec of the simple profile\<close>

text \<open>
  \<^verbatim>\<open>b64u\<close>: \<^verbatim>\<open>bin = String.fromCharCode(...new Uint8Array(buf))\<close>, which may throw, then
  \<^verbatim>\<open>btoa(bin).replace(/\+/g, '-').replace(/\//g, '_').replace(/=+$/, '')\<close>.
  \<^verbatim>\<open>ub64\<close>: the padding is restored to a multiple of four, the two replacements are undone,
  and \<^verbatim>\<open>atob\<close> decodes (and may throw).
\<close>

definition b64u :: "engine \<Rightarrow> byte list \<Rightarrow> js_error + string" where
  "b64u E buf =
     (case String_fromCharCode E buf of
        Inl e \<Rightarrow> Inl e
      | Inr bin \<Rightarrow>
          Inr (strip_trailing (CHR ''='')
                 (replace_all (CHR ''/'') (CHR ''_'') (replace_all (CHR ''+'') (CHR ''-'') (btoa bin)))))"

definition ub64 :: "string \<Rightarrow> js_error + byte list" where
  "ub64 s =
     (let pad = (if length s mod 4 \<noteq> 0 then replicate (4 - length s mod 4) (CHR ''='') else []);
          b64 = replace_all (CHR ''_'') (CHR ''/'') (replace_all (CHR ''-'') (CHR ''+'') s) @ pad
      in atob b64)"

text \<open>
  \<^verbatim>\<open>encJ = (o) => b64u(te.encode(JSON.stringify(o)))\<close>; the encoder takes \<^verbatim>\<open>undefined\<close>
  for the empty string. \<^verbatim>\<open>decJ = (s) => JSON.parse(td.decode(ub64(s)))\<close>.
\<close>

definition encJ :: "engine \<Rightarrow> jsval \<Rightarrow> js_error + string" where
  "encJ E v = b64u E (TextEncoder_encode (case JSON_stringify v of None \<Rightarrow> [] | Some t \<Rightarrow> t))"

definition decJ :: "string \<Rightarrow> js_error + jsval" where
  "decJ s =
     (case ub64 s of
        Inl e \<Rightarrow> Inl e
      | Inr buf \<Rightarrow>
          (case JSON_parse (TextDecoder_decode buf) of
             None \<Rightarrow> Inl SyntaxError
           | Some v \<Rightarrow> Inr v))"

text \<open>
  The shape of what \<^verbatim>\<open>btoa\<close> returns, for the proofs: the six-bit values of the bytes,
  and the padding.
\<close>

fun sextets :: "byte list \<Rightarrow> nat list" where
  "sextets [] = []"
| "sextets [a] = [unat a div 4, (unat a mod 4) * 16]"
| "sextets [a, b] = [unat a div 4, (unat a mod 4) * 16 + unat b div 16, (unat b mod 16) * 4]"
| "sextets (a # b # c # rest) =
     [unat a div 4, (unat a mod 4) * 16 + unat b div 16,
      (unat b mod 16) * 4 + unat c div 64, unat c mod 64] @ sextets rest"

definition padding :: "byte list \<Rightarrow> string" where
  "padding bs = replicate ((3 - length bs mod 3) mod 3) (CHR ''='')"

definition url_safe :: "char \<Rightarrow> char" where
  "url_safe c = (if c = CHR ''+'' then CHR ''-'' else if c = CHR ''/'' then CHR ''_'' else c)"


section \<open>Property order\<close>

text \<open>
  An array index is a key that is the canonical numeral of an integer from 0 to
  \<open>2 ^ 32 - 2\<close>. \<^verbatim>\<open>Object.entries\<close> lists the own properties of an object in property order:
  the array indices in ascending order, then the other keys in the order of their
  creation.
\<close>

definition array_index :: "string \<Rightarrow> int option" where
  "array_index k =
     (case k of
        [] \<Rightarrow> None
      | c # cs \<Rightarrow>
          if list_all is_digit k \<and> (c \<noteq> CHR ''0'' \<or> cs = []) \<and> length k \<le> 10
             \<and> foldl (\<lambda>n d. n * 10 + int (digit_value d)) 0 k < 4294967295
          then Some (foldl (\<lambda>n d. n * 10 + int (digit_value d)) 0 k) else None)"

definition Object_entries :: "(string \<times> 'a) list \<Rightarrow> (string \<times> 'a) list" where
  "Object_entries kvs =
     sort_key (\<lambda>kv. case array_index (fst kv) of None \<Rightarrow> 0 | Some i \<Rightarrow> i)
       (filter (\<lambda>kv. array_index (fst kv) \<noteq> None) kvs)
     @ filter (\<lambda>kv. array_index (fst kv) = None) kvs"

section \<open>Values as strings and as property keys\<close>

text \<open>
  \<^verbatim>\<open>ToString\<close>, which also makes the key of \<^verbatim>\<open>o[v]\<close> from \<open>v\<close>. An array is joined with
  commas, \<^verbatim>\<open>undefined\<close> and \<^verbatim>\<open>null\<close> among its elements giving the empty string. An object
  is \<^verbatim>\<open>[object Object]\<close> through \<^verbatim>\<open>Object.prototype.toString\<close>; where the object has a
  property \<^verbatim>\<open>toString\<close> of its own, that property is no function (the values here hold
  none), \<^verbatim>\<open>valueOf\<close> returns no primitive either, and the conversion throws a TypeError.
\<close>

fun ToString :: "jsval \<Rightarrow> js_error + string"
  and ToString_elements :: "jsval list \<Rightarrow> js_error + string list" where
  "ToString JUndefined = Inr ''undefined''"
| "ToString JNull = Inr ''null''"
| "ToString (JBool b) = Inr (if b then ''true'' else ''false'')"
| "ToString (JNum n) = Inr (number_text n)"
| "ToString (JStr s) = Inr s"
| "ToString (JArr xs) =
     (case ToString_elements xs of Inl e \<Rightarrow> Inl e | Inr ts \<Rightarrow> Inr (join '','' ts))"
| "ToString (JObj kvs) =
     (if map_of kvs ''toString'' = None then Inr ''[object Object]'' else Inl TypeError)"
| "ToString_elements [] = Inr []"
| "ToString_elements (x # xs) =
     (case (if x = JUndefined \<or> x = JNull then Inr [] else ToString x) of
        Inl e \<Rightarrow> Inl e
      | Inr t \<Rightarrow> (case ToString_elements xs of Inl e \<Rightarrow> Inl e | Inr ts \<Rightarrow> Inr (t # ts)))"

text \<open>
  What a read with a computed key finds: a value, or a built-in (a method or an object of
  the engine) that the named prototype holds under the key.
\<close>

datatype entry = Value jsval | Builtin prototype_object string

fun inherited :: "engine \<Rightarrow> prototype_object list \<Rightarrow> string \<Rightarrow> entry" where
  "inherited E [] k = Value JUndefined"
| "inherited E (p # chain) k = (if has_builtin E p k then Builtin p k else inherited E chain k)"

text \<open>
  \<^verbatim>\<open>v[k]\<close> for a key \<open>k\<close> that is a string: on \<^verbatim>\<open>undefined\<close> and \<^verbatim>\<open>null\<close> the read throws;
  an own property is read first (of an array and a string, the elements and \<^verbatim>\<open>length\<close>),
  then the prototype chain of the value.
\<close>

definition computed_member :: "engine \<Rightarrow> jsval \<Rightarrow> string \<Rightarrow> js_error + entry" where
  "computed_member E v k =
     (case v of
        JUndefined \<Rightarrow> Inl TypeError
      | JNull \<Rightarrow> Inl TypeError
      | JBool _ \<Rightarrow> Inr (inherited E [Boolean_prototype, Object_prototype] k)
      | JNum _ \<Rightarrow> Inr (inherited E [Number_prototype, Object_prototype] k)
      | JStr s \<Rightarrow>
          Inr (case (case array_index k of
                       None \<Rightarrow> None
                     | Some i \<Rightarrow> if i < int (length s) then Some (s ! nat i) else None) of
                 Some c \<Rightarrow> Value (JStr [c])
               | None \<Rightarrow>
                   if k = ''length'' then Value (JNum (int (length s)))
                   else inherited E [String_prototype, Object_prototype] k)
      | JArr xs \<Rightarrow>
          Inr (case (case array_index k of
                       None \<Rightarrow> None
                     | Some i \<Rightarrow> if i < int (length xs) then Some (xs ! nat i) else None) of
                 Some x \<Rightarrow> Value x
               | None \<Rightarrow>
                   if k = ''length'' then Value (JNum (int (length xs)))
                   else inherited E [Array_prototype, Object_prototype] k)
      | JObj kvs \<Rightarrow>
          Inr (case map_of kvs k of
                 Some x \<Rightarrow> Value x
               | None \<Rightarrow> inherited E [Object_prototype] k))"

text \<open>
  \<^verbatim>\<open>Object.entries(v)\<close> for a \<open>v\<close> that is neither \<^verbatim>\<open>undefined\<close> nor \<^verbatim>\<open>null\<close>: the own
  properties of an object, the elements of an array and the characters of a string under
  their indices, and nothing for a number or a boolean.
\<close>

definition indexed :: "'a list \<Rightarrow> (string \<times> 'a) list" where
  "indexed xs = zip (map (\<lambda>i. number_text (int i)) [0..<length xs]) xs"

definition entries_of :: "jsval \<Rightarrow> (string \<times> jsval) list" where
  "entries_of v =
     (case v of
        JObj kvs \<Rightarrow> Object_entries kvs
      | JArr xs \<Rightarrow> indexed xs
      | JStr s \<Rightarrow> indexed (map (\<lambda>c. JStr [c]) s)
      | _ \<Rightarrow> [])"

section \<open>The check-in client library: data types\<close>

datatype ArtifactType = fhir_resource | shc | shl

record Artifact =
  artifact_type :: ArtifactType
  data :: jsval

record Presentation =
  artifact :: int

text \<open>
  An object of type \<^verbatim>\<open>Record<string, T>\<close> is held as the list of its own properties, in
  the order of their creation.
\<close>

type_synonym VPToken = "(string \<times> Presentation list) list"

record RawResponse =
  state :: string
  vp_token :: VPToken
  smart_artifacts :: "Artifact list"

text \<open>
  The object \<^verbatim>\<open>credentials\<close>: its own properties in the order of their creation, and its
  prototype where an assignment has replaced it (\<open>None\<close> is \<^verbatim>\<open>Object.prototype\<close>, that of
  the literal \<^verbatim>\<open>{}\<close>).
\<close>

record 'a CredentialsObject =
  properties :: "(string \<times> 'a list) list"
  prototype :: "'a list option"

record RehydratedResponse = RawResponse +
  credentials :: "jsval CredentialsObject"

section \<open>rehydrateResponse\<close>

text \<open>
  \<^verbatim>\<open>response.smart_artifacts[presentation.artifact]\<close>: reading an array never throws; outside
  the array the read is \<^verbatim>\<open>undefined\<close>, here \<open>None\<close>.
\<close>

definition array_get :: "'a list \<Rightarrow> int \<Rightarrow> 'a option" where
  "array_get xs i = (if 0 \<le> i \<and> i < int (length xs) then Some (xs ! nat i) else None)"

text \<open>\<^verbatim>\<open>artifact?.data\<close>: \<^verbatim>\<open>undefined\<close> when the artifact is.\<close>

definition optional_data :: "Artifact option \<Rightarrow> jsval" where
  "optional_data a = (case a of None \<Rightarrow> JUndefined | Some x \<Rightarrow> data x)"

text \<open>\<^verbatim>\<open>artifact.data\<close>: a property read on \<^verbatim>\<open>undefined\<close> throws a TypeError.\<close>

definition member_data :: "Artifact option \<Rightarrow> js_error + jsval" where
  "member_data a = (case a of None \<Rightarrow> Inl TypeError | Some x \<Rightarrow> Inr (data x))"

definition type_tag :: "ArtifactType \<Rightarrow> string" where
  "type_tag t = (case t of fhir_resource \<Rightarrow> ''fhir_resource'' | shc \<Rightarrow> ''shc'' | shl \<Rightarrow> ''shl'')"

text \<open>The artifact itself as a value: \<^verbatim>\<open>undefined\<close>, or the object with its two fields.\<close>

definition artifact_value :: "Artifact option \<Rightarrow> jsval" where
  "artifact_value a =
     (case a of
        None \<Rightarrow> JUndefined
      | Some x \<Rightarrow> JObj [(''type'', JStr (type_tag (artifact_type x))), (''data'', data x)])"

text \<open>
  The callback of \<^verbatim>\<open>presentations.map\<close>:
  \<^verbatim>\<open>artifact?.data !== undefined ? artifact.data : artifact\<close>.
\<close>

definition resolve_presentation :: "Artifact list \<Rightarrow> Presentation \<Rightarrow> js_error + jsval" where
  "resolve_presentation arts presentation =
     (let a = array_get arts (artifact presentation)
      in if optional_data a \<noteq> JUndefined then member_data a else Inr (artifact_value a))"

text \<open>\<^verbatim>\<open>Array.prototype.map\<close> with a callback that may throw: the first throw ends the call.\<close>

fun map_throwing :: "('a \<Rightarrow> js_error + 'b) \<Rightarrow> 'a list \<Rightarrow> js_error + 'b list" where
  "map_throwing f [] = Inr []"
| "map_throwing f (x # xs) =
     (case f x of
        Inl e \<Rightarrow> Inl e
      | Inr y \<Rightarrow> (case map_throwing f xs of Inl e \<Rightarrow> Inl e | Inr ys \<Rightarrow> Inr (y # ys)))"

text \<open>
  \<^verbatim>\<open>credentials[id] = list\<close> on the object that began as the literal \<^verbatim>\<open>{}\<close>. The key
  \<^verbatim>\<open>__proto__\<close> is the accessor of \<^verbatim>\<open>Object.prototype\<close>: assigning an array to it makes the
  array the prototype of \<^verbatim>\<open>credentials\<close> and adds no property. Any other key replaces the
  value of the own property where it exists and creates the property otherwise (no
  built-in prototype has a setter or a read-only property that would intercept it).
\<close>

definition assign_credential :: "'a CredentialsObject \<Rightarrow> string \<Rightarrow> 'a list \<Rightarrow> 'a CredentialsObject" where
  "assign_credential creds ident vs =
     (if ident = ''__proto__'' then creds\<lparr>prototype := Some vs\<rparr>
      else creds\<lparr>properties := AList.update ident vs (properties creds)\<rparr>)"

text \<open>The loop over \<^verbatim>\<open>Object.entries(response.vp_token)\<close>.\<close>

fun rehydrate_entries ::
  "Artifact list \<Rightarrow> (string \<times> Presentation list) list \<Rightarrow> jsval CredentialsObject
     \<Rightarrow> js_error + jsval CredentialsObject" where
  "rehydrate_entries arts [] creds = Inr creds"
| "rehydrate_entries arts ((ident, presentations) # rest) creds =
     (case map_throwing (resolve_presentation arts) presentations of
        Inl e \<Rightarrow> Inl e
      | Inr vs \<Rightarrow> rehydrate_entries arts rest (assign_credential creds ident vs))"

text \<open>\<^verbatim>\<open>const credentials = {}\<close>, the loop, and \<^verbatim>\<open>return { ...response, credentials }\<close>.\<close>

definition rehydrateResponse :: "RawResponse \<Rightarrow> js_error + RehydratedResponse" where
  "rehydrateResponse response =
     (case rehydrate_entries (smart_artifacts response) (Object_entries (vp_token response))
             \<lparr>properties = [], prototype = None\<rparr> of
        Inl e \<Rightarrow> Inl e
      | Inr creds \<Rightarrow> Inr (RawResponse.extend response (RehydratedResponse.fields creds)))"

text \<open>
  \<^verbatim>\<open>credentials[id]\<close> read back, where it reads one of the lists the loop has stored: the
  own property of that name, and for \<^verbatim>\<open>__proto__\<close> the prototype that the accessor returns.
\<close>

definition stored_credential :: "'a CredentialsObject \<Rightarrow> string \<Rightarrow> 'a list option" where
  "stored_credential creds ident =
     (if ident = ''__proto__'' then prototype creds else map_of (properties creds) ident)"

text \<open>
  What one presentation resolves to, in closed form: the value the callback returns.
\<close>

definition presentation_value :: "Artifact list \<Rightarrow> Presentation \<Rightarrow> jsval" where
  "presentation_value arts p =
     (case array_get arts (artifact p) of
        None \<Rightarrow> JUndefined
      | Some x \<Rightarrow> if data x \<noteq> JUndefined then data x else artifact_value (Some x))"

section \<open>parseReturnHash\<close>

datatype ParsedReturn =
    ParsedReturnSuccess string jsval jsval
  | ParsedReturnError string string "string option"

text \<open>
  The result is \<open>Inr None\<close> for \<^verbatim>\<open>null\<close>; \<open>Inl\<close> is the exception that leaves the
  function. The fields of a success are what \<^verbatim>\<open>JSON.parse\<close> returned, unchecked.
  \<open>return_of_params\<close> is the function's body from \<^verbatim>\<open>const state = p.get('state')\<close> on.
\<close>

definition return_of_params :: "(string \<times> string) list \<Rightarrow> js_error + ParsedReturn option" where
  "return_of_params p =
     (case params_get p ''state'' of
        None \<Rightarrow> Inr None
      | Some st \<Rightarrow>
          if st = [] then Inr None
          else
            (case (case params_get p ''error'' of
                     None \<Rightarrow> None
                   | Some err \<Rightarrow> if err \<noteq> [] then Some err else None) of
               Some err \<Rightarrow>
                 Inr (Some (ParsedReturnError st err
                        (if truthy_string (params_get p ''error_description'')
                         then params_get p ''error_description'' else None)))
             | None \<Rightarrow>
                 (case (params_get p ''vp_token'', params_get p ''smart_artifacts'') of
                    (Some vpToken, Some smartArtifacts) \<Rightarrow>
                      if vpToken \<noteq> [] \<and> smartArtifacts \<noteq> [] then
                        (case JSON_parse vpToken of
                           None \<Rightarrow> Inl SyntaxError
                         | Some vp \<Rightarrow>
                             (case JSON_parse smartArtifacts of
                                None \<Rightarrow> Inl SyntaxError
                              | Some arts \<Rightarrow> Inr (Some (ParsedReturnSuccess st vp arts))))
                      else Inr None
                  | _ \<Rightarrow> Inr None)))"

definition parseReturnHash :: "string \<Rightarrow> js_error + ParsedReturn option" where
  "parseReturnHash hash =
     (if hash = [] \<or> hash = ''#'' then Inr None
      else
        let h = (if take 1 hash = ''#'' then drop 1 hash else hash);
            p = URLSearchParams h
        in return_of_params p)"

text \<open>The parameters \<^verbatim>\<open>p\<close> that the function reads from a hash.\<close>

definition fragment_params :: "string \<Rightarrow> (string \<times> string) list" where
  "fragment_params hash = URLSearchParams (if take 1 hash = ''#'' then drop 1 hash else hash)"

section \<open>rehydrateResponse on unchecked values\<close>

text \<open>
  The handler of \<^verbatim>\<open>request\<close> calls \<^verbatim>\<open>rehydrateResponse\<close> on what a relay message holds,
  which nothing has checked against the type \<^verbatim>\<open>RawResponse\<close>. This is the same function
  as it runs on any values \<^verbatim>\<open>vp_token\<close> and \<^verbatim>\<open>smart_artifacts\<close> that are truthy.

  The callback of \<^verbatim>\<open>presentations.map\<close>: \<^verbatim>\<open>presentation.artifact\<close> throws on \<^verbatim>\<open>undefined\<close>
  and \<^verbatim>\<open>null\<close>; the value read becomes the key of the read in \<^verbatim>\<open>smart_artifacts\<close>; no
  built-in has a property \<^verbatim>\<open>data\<close>.
\<close>

definition resolve_unchecked :: "engine \<Rightarrow> jsval \<Rightarrow> jsval \<Rightarrow> js_error + entry" where
  "resolve_unchecked E arts presentation =
     (if presentation = JUndefined \<or> presentation = JNull then Inl TypeError
      else
        (case ToString (property presentation ''artifact'') of
           Inl e \<Rightarrow> Inl e
         | Inr k \<Rightarrow>
             (case computed_member E arts k of
                Inl e \<Rightarrow> Inl e
              | Inr a \<Rightarrow>
                  (let d = (case a of
                              Value v \<Rightarrow>
                                if v = JUndefined \<or> v = JNull then JUndefined else property v ''data''
                            | Builtin _ _ \<Rightarrow> JUndefined)
                   in if d = JUndefined then Inr a else Inr (Value d)))))"

text \<open>
  The loop: \<^verbatim>\<open>presentations.map\<close> is a function only where \<^verbatim>\<open>presentations\<close> is an array,
  and the call throws a TypeError otherwise.
\<close>

fun rehydrate_unchecked_entries ::
  "engine \<Rightarrow> jsval \<Rightarrow> (string \<times> jsval) list \<Rightarrow> entry CredentialsObject
     \<Rightarrow> js_error + entry CredentialsObject" where
  "rehydrate_unchecked_entries E arts [] creds = Inr creds"
| "rehydrate_unchecked_entries E arts ((ident, presentations) # rest) creds =
     (case presentations of
        JArr ps \<Rightarrow>
          (case map_throwing (resolve_unchecked E arts) ps of
             Inl e \<Rightarrow> Inl e
           | Inr vs \<Rightarrow> rehydrate_unchecked_entries E arts rest (assign_credential creds ident vs))
      | _ \<Rightarrow> Inl TypeError)"

definition rehydrateResponse_unchecked ::
  "engine \<Rightarrow> jsval \<Rightarrow> jsval \<Rightarrow> js_error + entry CredentialsObject" where
  "rehydrateResponse_unchecked E vp arts =
     rehydrate_unchecked_entries E arts (entries_of vp) \<lparr>properties = [], prototype = None\<rparr>"

section \<open>request: the pending exchange\<close>

text \<open>
  What the promise of \<^verbatim>\<open>request\<close> is resolved with: the object made of \<^verbatim>\<open>msg.state\<close>,
  \<^verbatim>\<open>msg.vp_token\<close> and \<^verbatim>\<open>msg.smart_artifacts\<close>, as it is or with \<^verbatim>\<open>credentials\<close> added.
\<close>

datatype response =
    Raw string jsval jsval
  | Rehydrated string jsval jsval "entry CredentialsObject"

datatype outcome = Resolved response | Rejected js_error

text \<open>
  What the closures of one call of \<^verbatim>\<open>request\<close> share: the constants \<^verbatim>\<open>state\<close>,
  \<^verbatim>\<open>shouldRehydrate\<close> and \<^verbatim>\<open>timeout\<close>, whether the timer of \<^verbatim>\<open>timeoutId\<close> is still
  pending, whether \<^verbatim>\<open>chan\<close> is open, the variable \<^verbatim>\<open>popup\<close> (\<open>None\<close> for \<^verbatim>\<open>null\<close>, else
  the window's \<^verbatim>\<open>closed\<close> flag), and the promise \<^verbatim>\<open>done\<close> (\<open>None\<close> while it is pending).
\<close>

record exchange =
  expected_state :: string
  shouldRehydrate :: bool
  timer_delay :: int
  timer_pending :: bool
  chan_open :: bool
  popup_window :: "bool option"
  settled :: "outcome option"

text \<open>\<^verbatim>\<open>cleanup()\<close>; an error of \<^verbatim>\<open>popup.close()\<close> is caught and ignored.\<close>

definition cleanup :: "exchange \<Rightarrow> exchange" where
  "cleanup ex =
     ex\<lparr>timer_pending := False, chan_open := False,
        popup_window := (case popup_window ex of Some False \<Rightarrow> Some True | w \<Rightarrow> w)\<rparr>"

text \<open>\<^verbatim>\<open>resolve(v)\<close> and \<^verbatim>\<open>reject(e)\<close>: a promise settles once; later calls do nothing.\<close>

definition settle :: "outcome \<Rightarrow> exchange \<Rightarrow> exchange" where
  "settle out ex = (case settled ex of None \<Rightarrow> ex\<lparr>settled := Some out\<rparr> | Some _ \<Rightarrow> ex)"

text \<open>
  The handler \<^verbatim>\<open>chan.onmessage\<close>, on the value \<^verbatim>\<open>ev.data\<close>, which is of type \<^verbatim>\<open>any\<close>. The
  handler has no \<^verbatim>\<open>try\<close>: where \<^verbatim>\<open>new Error(...)\<close> throws in converting its argument to a
  string, or \<^verbatim>\<open>rehydrateResponse\<close> throws, the exception leaves the handler after
  \<^verbatim>\<open>cleanup()\<close> has run and before the promise is settled.
\<close>

definition onmessage :: "engine \<Rightarrow> exchange \<Rightarrow> jsval \<Rightarrow> exchange" where
  "onmessage E ex msg =
     (if truthy msg \<and> property msg ''state'' = JStr (expected_state ex) then
        (if truthy (property msg ''error'') then
           (case ToString (if truthy (property msg ''error_description'')
                           then property msg ''error_description'' else property msg ''error'') of
              Inl e \<Rightarrow> cleanup ex
            | Inr message \<Rightarrow>
                settle (Rejected (SHLError message (property msg ''error'') (expected_state ex)))
                  (cleanup ex))
         else if truthy (property msg ''vp_token'') \<and> truthy (property msg ''smart_artifacts'') then
           (if shouldRehydrate ex then
              (case rehydrateResponse_unchecked E (property msg ''vp_token'')
                      (property msg ''smart_artifacts'') of
                 Inl e \<Rightarrow> cleanup ex
               | Inr creds \<Rightarrow>
                   settle (Resolved (Rehydrated (expected_state ex) (property msg ''vp_token'')
                                       (property msg ''smart_artifacts'') creds))
                     (cleanup ex))
            else
              settle (Resolved (Raw (expected_state ex) (property msg ''vp_token'')
                                  (property msg ''smart_artifacts'')))
                (cleanup ex))
         else ex)
      else ex)"

text \<open>The callback of \<^verbatim>\<open>setTimeout\<close>.\<close>

definition ontimeout :: "exchange \<Rightarrow> exchange" where
  "ontimeout ex = settle (Rejected (JsError ''Request timeout'')) (cleanup ex)"

text \<open>
  What the event loop can run for the exchange: a message posted on the channel, which
  reaches the handler only while the channel is open, and the timer, which fires only
  while it is pending.
\<close>

datatype event = Message jsval | TimerFires

fun step :: "engine \<Rightarrow> exchange \<Rightarrow> event \<Rightarrow> exchange" where
  "step E ex (Message m) = (if chan_open ex then onmessage E ex m else ex)"
| "step E ex TimerFires = (if timer_pending ex then ontimeout ex else ex)"

definition run :: "engine \<Rightarrow> exchange \<Rightarrow> event list \<Rightarrow> exchange" where
  "run E ex evs = foldl (step E) ex evs"

text \<open>
  The messages that the handler acts on: the state matches and the message carries a
  truthy \<^verbatim>\<open>error\<close>, or both \<^verbatim>\<open>vp_token\<close> and \<^verbatim>\<open>smart_artifacts\<close> truthy.
\<close>

definition accepted :: "string \<Rightarrow> jsval \<Rightarrow> bool" where
  "accepted st msg =
     (truthy msg \<and> property msg ''state'' = JStr st \<and>
      (truthy (property msg ''error'') \<or>
       (truthy (property msg ''vp_token'') \<and> truthy (property msg ''smart_artifacts''))))"

section \<open>request\<close>

record OID4VPRequestParams =
  client_id :: string
  response_type :: string
  response_mode :: string
  param_state :: string
  nonce :: string
  dcql_query :: jsval

text \<open>
  \<^verbatim>\<open>RequestOptions\<close>. The callback returns \<open>Some e\<close> when it throws \<open>e\<close>; \<open>None\<close> is an
  option that was left out.
\<close>

record RequestOptions =
  checkinBase :: string
  onRequestStart :: "(OID4VPRequestParams \<Rightarrow> js_error option) option"
  rehydrate :: "bool option"
  timeout :: "int option"

text \<open>
  What the page's environment answers during one call: the bytes of the two calls of
  \<^verbatim>\<open>crypto.getRandomValues\<close>, the location, and whether \<^verbatim>\<open>window.open\<close> returns a window.
\<close>

record browser =
  random_first :: "byte list"
  random_second :: "byte list"
  location_href :: string
  location_origin :: string
  location_pathname :: string
  popup_allowed :: bool

text \<open>What a call does to the page's environment, in order.\<close>

datatype effect =
    GetRandomValues
  | NewBroadcastChannel string
  | SetTimeout int
  | CallOnRequestStart OID4VPRequestParams
  | WindowOpen string
  | BroadcastChannelClose string

text \<open>
  What a call of \<^verbatim>\<open>request\<close> leaves when it returns: its effects, the error its promise
  is already rejected with (if any), and the exchange it has set up (if any). The body has
  no \<^verbatim>\<open>await\<close>, so it runs to its end before any handler can.
\<close>

record request_result =
  effects :: "effect list"
  rejected :: "js_error option"
  pending :: "exchange option"

definition generateRandomState :: "byte list \<Rightarrow> string" where
  "generateRandomState bytes =
     concat (map (\<lambda>b. [hex_digit (unat b div 16), hex_digit (unat b)]) bytes)"

text \<open>\<^verbatim>\<open>new URL(location.href)\<close> with \<^verbatim>\<open>hash = ''\<close>, as a string.\<close>

definition without_fragment :: "string \<Rightarrow> string" where
  "without_fragment href = takeWhile (\<lambda>c. c \<noteq> CHR ''#'') href"

definition request :: "browser \<Rightarrow> jsval \<Rightarrow> RequestOptions \<Rightarrow> request_result" where
  "request env dcqlQuery opts =
     (let base = strip_trailing (CHR ''/'') (checkinBase opts)
      in if base = [] then
           \<lparr>effects = [], rejected = Some (JsError ''checkinBase required''), pending = None\<rparr>
         else if \<not> truthy dcqlQuery \<or> \<not> is_array (property dcqlQuery ''credentials'') then
           \<lparr>effects = [],
            rejected = Some (JsError ''dcqlQuery must be an object with a credentials array''),
            pending = None\<rparr>
         else
           let st = generateRandomState (random_first env);
               nc = generateRandomState (random_second env);
               delay = (case timeout opts of None \<Rightarrow> 2 * 60 * 1000 | Some t \<Rightarrow> t);
               ex = \<lparr>expected_state = st, shouldRehydrate = (rehydrate opts \<noteq> Some False),
                     timer_delay = delay, timer_pending = True, chan_open = True,
                     popup_window = None, settled = None\<rparr>;
               setup = [GetRandomValues, GetRandomValues, NewBroadcastChannel (''shl-'' @ st),
                        SetTimeout delay];
               clientId = ''redirect_uri:'' @ without_fragment (location_href env);
               params = params_toString
                  [(''client_id'', clientId), (''response_type'', ''vp_token''),
                   (''response_mode'', ''fragment''), (''nonce'', nc), (''state'', st),
                   (''dcql_query'',
                      (case JSON_stringify dcqlQuery of None \<Rightarrow> ''undefined'' | Some t \<Rightarrow> t))];
               started = \<lparr>client_id = clientId, response_type = ''vp_token'',
                          response_mode = ''fragment'', param_state = st, nonce = nc,
                          dcql_query = dcqlQuery\<rparr>;
               called = (case onRequestStart opts of
                           None \<Rightarrow> ([], None)
                         | Some callback \<Rightarrow> ([CallOnRequestStart started], callback started));
               url = base @ ''/?'' @ params
           in case snd called of
                Some e \<Rightarrow> \<lparr>effects = setup @ fst called, rejected = Some e, pending = Some ex\<rparr>
              | None \<Rightarrow>
                  if popup_allowed env then
                    \<lparr>effects = setup @ fst called @ [WindowOpen url], rejected = None,
                     pending = Some (ex\<lparr>popup_window := Some False\<rparr>)\<rparr>
                  else
                    \<lparr>effects = setup @ fst called @
                                 [WindowOpen url, BroadcastChannelClose (''shl-'' @ st)],
                     rejected = Some (JsError ''Popup blocked - please allow popups for this site''),
                     pending = Some (ex\<lparr>chan_open := False\<rparr>)\<rparr>)"

section \<open>The simple profile's request\<close>

text \<open>
  The older library of the simple profile: the request is one \<^verbatim>\<open>#req=\<close> envelope, and the
  timer is a constant of the function. The model covers the call and the timer; its
  logging is left out. Where \<^verbatim>\<open>encJ\<close> throws, the call ends with the channel and the timer
  it has already set up.
\<close>

datatype simple_outcome = SimpleResolved jsval | SimpleRejected js_error

record simple_exchange =
  simple_state :: string
  simple_protocol :: jsval
  simple_timer_delay :: int
  simple_timer_pending :: bool
  simple_chan_open :: bool
  simple_popup :: "bool option"
  simple_settled :: "simple_outcome option"

record simple_result =
  simple_effects :: "effect list"
  simple_rejected :: "js_error option"
  simple_pending :: "simple_exchange option"

definition simple_cleanup :: "simple_exchange \<Rightarrow> simple_exchange" where
  "simple_cleanup ex =
     ex\<lparr>simple_timer_pending := False, simple_chan_open := False,
        simple_popup := (case simple_popup ex of Some False \<Rightarrow> Some True | w \<Rightarrow> w)\<rparr>"

definition simple_ontimeout :: "simple_exchange \<Rightarrow> simple_exchange" where
  "simple_ontimeout ex =
     (let ex' = simple_cleanup ex
      in case simple_settled ex' of
           None \<Rightarrow> ex'\<lparr>simple_settled := Some (SimpleRejected (JsError ''Request timeout after 5 minutes''))\<rparr>
         | Some _ \<Rightarrow> ex')"

definition simple_request :: "engine \<Rightarrow> browser \<Rightarrow> jsval \<Rightarrow> jsval \<Rightarrow> simple_result" where
  "simple_request E env credentialRequest opts =
     (let digital = optional_property credentialRequest ''digital'';
          first = optional_first (optional_property digital ''requests'')
      in if \<not> truthy first then
           \<lparr>simple_effects = [], simple_rejected = Some (JsError ''digital.requests[0] required''),
            simple_pending = None\<rparr>
         else
           (case (let g = optional_property opts ''gatewayBase'' in if truthy g then g else JStr []) of
              JStr g \<Rightarrow>
                (let gatewayBase = strip_trailing (CHR ''/'') g
                 in if gatewayBase = [] then
                      \<lparr>simple_effects = [], simple_rejected = Some (JsError ''gatewayBase required''),
                       simple_pending = None\<rparr>
                    else
                      let st = generateRandomState (random_first env);
                          returnUrl = location_origin env @ location_pathname env;
                          protocol = property first ''protocol'';
                          delay = 5 * 60 * 1000;
                          ex = \<lparr>simple_state = st, simple_protocol = protocol,
                                simple_timer_delay = delay, simple_timer_pending = True,
                                simple_chan_open = True, simple_popup = None,
                                simple_settled = None\<rparr>;
                          listening = [GetRandomValues, NewBroadcastChannel (''shl-'' @ st),
                                       SetTimeout delay]
                      in case encJ E (JObj [(''v'', JNum 1), (''state'', JStr st),
                                            (''returnUrl'', JStr returnUrl),
                                            (''digital'', property credentialRequest ''digital'')]) of
                           Inl e \<Rightarrow>
                             \<lparr>simple_effects = listening, simple_rejected = Some e,
                              simple_pending = Some ex\<rparr>
                         | Inr reqEnvelope \<Rightarrow>
                             let url = gatewayBase @ ''/#req='' @ encodeURIComponent reqEnvelope;
                                 setup = listening @ [WindowOpen url]
                             in if popup_allowed env then
                                  \<lparr>simple_effects = setup, simple_rejected = None,
                                   simple_pending = Some (ex\<lparr>simple_popup := Some False\<rparr>)\<rparr>
                                else
                                  \<lparr>simple_effects = setup @ [BroadcastChannelClose (''shl-'' @ st)],
                                   simple_rejected =
                                     Some (JsError ''Popup blocked - please allow popups for this site''),
                                   simple_pending = Some (ex\<lparr>simple_chan_open := False\<rparr>)\<rparr>)
            | _ \<Rightarrow>
                \<lparr>simple_effects = [], simple_rejected = Some TypeError, simple_pending = None\<rparr>))"

section \<open>Example inputs\<close>

text \<open>Concrete inputs at which the definitions above are evaluated.\<close>

text \<open>An engine with the prototypes of ECMAScript 2023.\<close>

definition example_engine :: engine where
  "example_engine =
     \<lparr>argument_limit = 100000,
      has_builtin = (\<lambda>p k. k \<in> set
        (case p of
           Object_prototype \<Rightarrow>
             [''constructor'', ''__defineGetter__'', ''__defineSetter__'', ''hasOwnProperty'',
              ''__lookupGetter__'', ''__lookupSetter__'', ''isPrototypeOf'',
              ''propertyIsEnumerable'', ''toString'', ''valueOf'', ''__proto__'',
              ''toLocaleString'']
         | Array_prototype \<Rightarrow>
             [''length'', ''constructor'', ''at'', ''concat'', ''copyWithin'', ''fill'', ''find'',
              ''findIndex'', ''findLast'', ''findLastIndex'', ''lastIndexOf'', ''pop'', ''push'',
              ''reverse'', ''shift'', ''unshift'', ''slice'', ''sort'', ''splice'', ''includes'',
              ''indexOf'', ''join'', ''keys'', ''entries'', ''values'', ''forEach'', ''filter'',
              ''flat'', ''flatMap'', ''map'', ''every'', ''some'', ''reduce'', ''reduceRight'',
              ''toLocaleString'', ''toString'', ''toReversed'', ''toSorted'', ''toSpliced'',
              ''with'']
         | String_prototype \<Rightarrow>
             [''length'', ''constructor'', ''anchor'', ''at'', ''big'', ''blink'', ''bold'',
              ''charAt'', ''charCodeAt'', ''codePointAt'', ''concat'', ''endsWith'',
              ''fontcolor'', ''fontsize'', ''fixed'', ''includes'', ''indexOf'', ''isWellFormed'',
              ''italics'', ''lastIndexOf'', ''link'', ''localeCompare'', ''match'', ''matchAll'',
              ''normalize'', ''padEnd'', ''padStart'', ''repeat'', ''replace'', ''replaceAll'',
              ''search'', ''slice'', ''small'', ''split'', ''strike'', ''sub'', ''substr'',
              ''substring'', ''sup'', ''startsWith'', ''toString'', ''toWellFormed'', ''trim'',
              ''trimStart'', ''trimLeft'', ''trimEnd'', ''trimRight'', ''toLocaleLowerCase'',
              ''toLocaleUpperCase'', ''toLowerCase'', ''toUpperCase'', ''valueOf'']
         | Number_prototype \<Rightarrow>
             [''constructor'', ''toExponential'', ''toFixed'', ''toPrecision'', ''toString'',
              ''valueOf'', ''toLocaleString'']
         | Boolean_prototype \<Rightarrow> [''constructor'', ''toString'', ''valueOf'']))\<rparr>"

definition example_browser :: browser where
  "example_browser =
     \<lparr>random_first = [1, 2, 3, 4, 5, 6, 7, 8, 9, 10, 11, 12, 13, 14, 15, 255],
      random_second = [16, 32, 48, 64, 80, 96, 112, 128, 144, 160, 176, 192, 208, 224, 240, 0],
      location_href = ''https://clinic.example/app#top'',
      location_origin = ''https://clinic.example'',
      location_pathname = ''/app'',
      popup_allowed = True\<rparr>"

definition example_options :: RequestOptions where
  "example_options =
     \<lparr>checkinBase = ''https://picker.example/'', onRequestStart = None, rehydrate = None,
      timeout = None\<rparr>"

definition example_query :: jsval where
  "example_query =
     JObj [(''credentials'',
            JArr [JObj [(''id'', JStr ''coverage-1''), (''format'', JStr ''smart_artifact''),
                        (''meta'', JObj [(''profile'', JStr ''http://hl7.org/fhir/us/insurance-card/StructureDefinition/C4DIC-Coverage'')])]])]"

definition example_exchange :: exchange where
  "example_exchange =
     \<lparr>expected_state = ''0102030405060708090a0b0c0d0e0fff'', shouldRehydrate = True,
      timer_delay = 120000, timer_pending = True, chan_open = True,
      popup_window = Some False, settled = None\<rparr>"

definition example_success :: "string \<Rightarrow> string \<Rightarrow> jsval" where
  "example_success st payload =
     JObj [(''state'', JStr st),
           (''vp_token'', JObj [(''coverage-1'', JArr [JObj [(''artifact'', JNum 0)]])]),
           (''smart_artifacts'', JArr [JObj [(''type'', JStr ''shc''), (''data'', JStr payload)]])]"

text \<open>
  A message with the awaited state whose \<^verbatim>\<open>vp_token\<close> lists \<^verbatim>\<open>null\<close> where a presentation
  should be.
\<close>

definition example_malformed :: jsval where
  "example_malformed =
     JObj [(''state'', JStr ''0102030405060708090a0b0c0d0e0fff''),
           (''vp_token'', JObj [(''a'', JArr [JNull])]),
           (''smart_artifacts'', JArr [])]"

definition example_credential_request :: jsval where
  "example_credential_request =
     JObj [(''digital'',
            JObj [(''requests'',
                   JArr [JObj [(''protocol'', JStr ''smart-health-card''), (''data'', JObj [])]])])]"

definition example_simple_options :: jsval where
  "example_simple_options = JObj [(''gatewayBase'', JStr ''https://gateway.example/''), (''timeout'', JNum 1000)]"

definition blocked_browser :: browser where
  "blocked_browser = example_browser\<lparr>popup_allowed := False\<rparr>"

section \<open>Notions used in the statements\<close>

text \<open>An effect that opens a window.\<close>

definition is_window_open :: "effect \<Rightarrow> bool" where
  "is_window_open e = (case e of WindowOpen _ \<Rightarrow> True | _ \<Rightarrow> False)"


section \<open>Properties of rehydrateResponse\<close>

lemma resolve_presentation_Inr:
  "resolve_presentation arts p = Inr (presentation_value arts p)"
  by (simp add: resolve_presentation_def optional_data_def member_data_def artifact_value_def
      presentation_value_def split: option.splits)

lemma map_throwing_resolve:
  "map_throwing (resolve_presentation arts) ps = Inr (map (presentation_value arts) ps)"
  by (induction ps) (simp_all add: resolve_presentation_Inr)

lemma rehydrate_entries_fold:
  "rehydrate_entries arts vp creds =
     Inr (fold (\<lambda>(ident, ps) c. assign_credential c ident (map (presentation_value arts) ps)) vp creds)"
  by (induction vp arbitrary: creds) (auto simp: map_throwing_resolve)

lemma update_fresh: "ident \<notin> fst ` set creds \<Longrightarrow> AList.update ident v creds = creds @ [(ident, v)]"
  by (induction creds) auto

lemma fold_assign_fresh:
  "distinct (map fst vp) \<Longrightarrow> fst ` set vp \<inter> fst ` set (properties creds) = {} \<Longrightarrow>
   fold (\<lambda>(ident, ps) c. assign_credential c ident (f ps)) vp creds
     = \<lparr>properties = properties creds
           @ map (\<lambda>(ident, ps). (ident, f ps)) (filter (\<lambda>e. fst e \<noteq> ''__proto__'') vp),
        prototype = (case map_of vp ''__proto__'' of None \<Rightarrow> prototype creds | Some ps \<Rightarrow> Some (f ps))\<rparr>"
proof (induction vp arbitrary: creds)
  case Nil
  then show ?case by simp
next
  case (Cons e vp)
  obtain ident ps where e: "e = (ident, ps)" by (cases e)
  show ?case
  proof (cases "ident = ''__proto__''")
    case True
    with Cons.prems have "map_of vp ''__proto__'' = None"
      by (auto simp: e map_of_eq_None_iff)
    with Cons.IH [of "creds\<lparr>prototype := Some (f ps)\<rparr>"] Cons.prems True show ?thesis
      by (auto simp: e assign_credential_def)
  next
    case False
    from Cons.prems have fresh: "ident \<notin> fst ` set (properties creds)" by (auto simp: e)
    let ?c = "creds\<lparr>properties := properties creds @ [(ident, f ps)]\<rparr>"
    from Cons.prems have "fst ` set vp \<inter> fst ` set (properties ?c) = {}"
      by (auto simp: e)
    with Cons.IH [of ?c] Cons.prems False show ?thesis
      by (simp add: e assign_credential_def update_fresh [OF fresh] split: option.splits)
  qed
qed

lemma set_Object_entries: "set (Object_entries kvs) = set kvs"
  by (auto simp: Object_entries_def)

lemma distinct_Object_entries:
  "distinct (map fst kvs) \<Longrightarrow> distinct (map fst (Object_entries kvs))"
proof -
  assume d: "distinct (map fst kvs)"
  then have inj: "inj_on fst (set kvs)" and dk: "distinct kvs"
    by (simp_all add: distinct_map)
  have "distinct (Object_entries kvs)"
    using dk by (auto simp: Object_entries_def)
  with inj show ?thesis
    by (simp add: distinct_map set_Object_entries)
qed

lemma map_of_Object_entries:
  "distinct (map fst kvs) \<Longrightarrow> map_of (Object_entries kvs) = map_of kvs"
  by (rule map_of_inject_set [THEN iffD2]) (simp_all add: distinct_Object_entries set_Object_entries)

lemma rehydrateResponse_eq:
  "rehydrateResponse r =
     Inr (RawResponse.extend r (RehydratedResponse.fields
       (fold (\<lambda>(ident, ps) c. assign_credential c ident (map (presentation_value (smart_artifacts r)) ps))
          (Object_entries (vp_token r)) \<lparr>properties = [], prototype = None\<rparr>)))"
  by (simp add: rehydrateResponse_def rehydrate_entries_fold)

lemma rehydrateResponse_distinct:
  assumes "distinct (map fst (vp_token r))"
  shows "rehydrateResponse r =
     Inr (RawResponse.extend r (RehydratedResponse.fields
       \<lparr>properties =
          map (\<lambda>(ident, ps). (ident, map (presentation_value (smart_artifacts r)) ps))
            (filter (\<lambda>e. fst e \<noteq> ''__proto__'') (Object_entries (vp_token r))),
        prototype = map_option (map (presentation_value (smart_artifacts r)))
                      (map_of (vp_token r) ''__proto__'')\<rparr>))"
  using fold_assign_fresh [OF distinct_Object_entries [OF assms],
      of "\<lparr>properties = [], prototype = None\<rparr>" "map (presentation_value (smart_artifacts r))"]
  by (simp add: rehydrateResponse_eq map_of_Object_entries [OF assms] split: option.splits)

lemma credentials_extend: "credentials (RawResponse.extend r (RehydratedResponse.fields c)) = c"
  by (simp add: RawResponse.extend_def RehydratedResponse.fields_def)

lemma map_of_rehydrated:
  "map_of (map (\<lambda>(ident, ps). (ident, f ps)) vp) ident = map_option f (map_of vp ident)"
  by (induction vp) auto

lemma map_of_filter_other:
  "ident \<noteq> k \<Longrightarrow> map_of (filter (\<lambda>e. fst e \<noteq> k) vp) ident = map_of vp ident"
  by (induction vp) auto

lemma stored_credential_rehydrated:
  assumes "distinct (map fst vp)"
  shows "stored_credential
     \<lparr>properties = map (\<lambda>(ident, ps). (ident, f ps)) (filter (\<lambda>e. fst e \<noteq> ''__proto__'') (Object_entries vp)),
      prototype = map_option f (map_of vp ''__proto__'')\<rparr> ident = map_option f (map_of vp ident)"
  by (simp add: stored_credential_def map_of_rehydrated map_of_filter_other
      map_of_Object_entries [OF assms])

lemma truncate_extend:
  "RawResponse.truncate (RawResponse.extend r (RehydratedResponse.fields c)) = r"
  by (simp add: RawResponse.extend_def RehydratedResponse.fields_def RawResponse.truncate_def)

lemma extend_sel:
  "state (RawResponse.extend r m) = state r"
  "vp_token (RawResponse.extend r m) = vp_token r"
  "smart_artifacts (RawResponse.extend r m) = smart_artifacts r"
  by (simp_all add: RawResponse.extend_def)

text \<open>
  C3, as amended. For a \<^verbatim>\<open>vp_token\<close> object (its keys are distinct), rehydration returns, and
  \<^verbatim>\<open>credentials\<close> has one own property for every id of \<^verbatim>\<open>vp_token\<close> other than \<^verbatim>\<open>__proto__\<close>,
  in the order of \<^verbatim>\<open>Object.entries\<close>, whose value is the list of what the presentations of
  the id resolve to, in order: the \<^verbatim>\<open>data\<close> of the referenced artifact where that is not
  \<^verbatim>\<open>undefined\<close>, the artifact object itself where its \<^verbatim>\<open>data\<close> is \<^verbatim>\<open>undefined\<close>, and
  \<^verbatim>\<open>undefined\<close> where the index is outside \<^verbatim>\<open>smart_artifacts\<close>. The list of the id
  \<^verbatim>\<open>__proto__\<close>, where \<^verbatim>\<open>vp_token\<close> has it, becomes the prototype of \<^verbatim>\<open>credentials\<close> instead of
  a property. So an empty presentation list gives an empty list, and ids \<^verbatim>\<open>a\<close> with indices
  0, 1 and \<^verbatim>\<open>b\<close> with index 0 over the artifacts with data \<open>X\<close> and \<open>Y\<close> give
  \<^verbatim>\<open>{a: [X, Y], b: [X]}\<close> when neither \<open>X\<close> nor \<open>Y\<close> is \<^verbatim>\<open>undefined\<close>.
\<close>

theorem rehydrateResponse_credentials:
  "(distinct (map fst (vp_token r)) \<longrightarrow>
     (\<exists>r'. rehydrateResponse r = Inr r' \<and>
       properties (credentials r') =
         map (\<lambda>(ident, ps). (ident,
                map (\<lambda>p. case array_get (smart_artifacts r) (artifact p) of
                            None \<Rightarrow> JUndefined
                          | Some x \<Rightarrow>
                              if data x \<noteq> JUndefined then data x
                              else JObj [(''type'', JStr (type_tag (artifact_type x))),
                                         (''data'', data x)])
                    ps))
             (filter (\<lambda>e. fst e \<noteq> ''__proto__'') (Object_entries (vp_token r))) \<and>
       prototype (credentials r') =
         map_option
           (map (\<lambda>p. case array_get (smart_artifacts r) (artifact p) of
                        None \<Rightarrow> JUndefined
                      | Some x \<Rightarrow>
                          if data x \<noteq> JUndefined then data x
                          else JObj [(''type'', JStr (type_tag (artifact_type x))),
                                     (''data'', data x)]))
           (map_of (vp_token r) ''__proto__''))) \<and>
   (X \<noteq> JUndefined \<and> Y \<noteq> JUndefined \<longrightarrow>
     (\<exists>r'. rehydrateResponse
             \<lparr>state = s,
              vp_token = [(''a'', [\<lparr>artifact = 0\<rparr>, \<lparr>artifact = 1\<rparr>]), (''b'', [\<lparr>artifact = 0\<rparr>])],
              smart_artifacts = [\<lparr>artifact_type = fhir_resource, data = X\<rparr>,
                                 \<lparr>artifact_type = shl, data = Y\<rparr>]\<rparr> = Inr r' \<and>
           credentials r' = \<lparr>properties = [(''a'', [X, Y]), (''b'', [X])], prototype = None\<rparr>))"
proof (intro conjI impI)
  assume d: "distinct (map fst (vp_token r))"
  have pv: "presentation_value (smart_artifacts r) =
     (\<lambda>p. case array_get (smart_artifacts r) (artifact p) of
             None \<Rightarrow> JUndefined
           | Some x \<Rightarrow>
               if data x \<noteq> JUndefined then data x
               else JObj [(''type'', JStr (type_tag (artifact_type x))), (''data'', data x)])"
    by (rule ext) (simp add: presentation_value_def artifact_value_def split: option.splits)
  show "\<exists>r'. rehydrateResponse r = Inr r' \<and>
       properties (credentials r') =
         map (\<lambda>(ident, ps). (ident,
                map (\<lambda>p. case array_get (smart_artifacts r) (artifact p) of
                            None \<Rightarrow> JUndefined
                          | Some x \<Rightarrow>
                              if data x \<noteq> JUndefined then data x
                              else JObj [(''type'', JStr (type_tag (artifact_type x))),
                                         (''data'', data x)])
                    ps))
             (filter (\<lambda>e. fst e \<noteq> ''__proto__'') (Object_entries (vp_token r))) \<and>
       prototype (credentials r') =
         map_option
           (map (\<lambda>p. case array_get (smart_artifacts r) (artifact p) of
                        None \<Rightarrow> JUndefined
                      | Some x \<Rightarrow>
                          if data x \<noteq> JUndefined then data x
                          else JObj [(''type'', JStr (type_tag (artifact_type x))),
                                     (''data'', data x)]))
           (map_of (vp_token r) ''__proto__'')"
    unfolding pv [symmetric]
    using rehydrateResponse_distinct [OF d] by (simp add: credentials_extend)
next
  assume xy: "X \<noteq> JUndefined \<and> Y \<noteq> JUndefined"
  have e: "Object_entries [(''a'', [\<lparr>artifact = 0\<rparr>, \<lparr>artifact = 1\<rparr>]), (''b'', [\<lparr>artifact = 0\<rparr>])]
      = [(''a'', [\<lparr>artifact = 0\<rparr>, \<lparr>artifact = 1\<rparr>]), (''b'', [\<lparr>artifact = 0\<rparr>])]"
    by code_simp
  from xy show "\<exists>r'. rehydrateResponse
             \<lparr>state = s,
              vp_token = [(''a'', [\<lparr>artifact = 0\<rparr>, \<lparr>artifact = 1\<rparr>]), (''b'', [\<lparr>artifact = 0\<rparr>])],
              smart_artifacts = [\<lparr>artifact_type = fhir_resource, data = X\<rparr>,
                                 \<lparr>artifact_type = shl, data = Y\<rparr>]\<rparr> = Inr r' \<and>
           credentials r' = \<lparr>properties = [(''a'', [X, Y]), (''b'', [X])], prototype = None\<rparr>"
    by (simp add: rehydrateResponse_eq e credentials_extend presentation_value_def array_get_def
        assign_credential_def)
qed

theorem rehydrateResponse_credentials_witness:
  "distinct (map fst [(''b'', [\<lparr>artifact = 0\<rparr>]), (''__proto__'', [\<lparr>artifact = 1\<rparr>]),
                      (''7'', [\<lparr>artifact = 0\<rparr>, \<lparr>artifact = 1\<rparr>]), (''c'', [])]) \<and>
   (\<exists>r'. rehydrateResponse
     \<lparr>state = ''s'',
      vp_token = [(''b'', [\<lparr>artifact = 0\<rparr>]), (''__proto__'', [\<lparr>artifact = 1\<rparr>]),
                  (''7'', [\<lparr>artifact = 0\<rparr>, \<lparr>artifact = 1\<rparr>]), (''c'', [])],
      smart_artifacts =
        [\<lparr>artifact_type = fhir_resource, data = JObj [(''resourceType'', JStr ''Coverage'')]\<rparr>,
         \<lparr>artifact_type = shl, data = JStr ''shlink:/y''\<rparr>]\<rparr> = Inr r' \<and>
     credentials r' =
       \<lparr>properties =
          [(''7'', [JObj [(''resourceType'', JStr ''Coverage'')], JStr ''shlink:/y'']),
           (''b'', [JObj [(''resourceType'', JStr ''Coverage'')]]),
           (''c'', [])],
        prototype = Some [JStr ''shlink:/y'']\<rparr>) \<and>
   JObj [(''resourceType'', JStr ''Coverage'')] \<noteq> JUndefined \<and> JStr ''shlink:/y'' \<noteq> JUndefined \<and>
   (\<exists>r'. rehydrateResponse
     \<lparr>state = ''s'',
      vp_token = [(''a'', [\<lparr>artifact = 0\<rparr>, \<lparr>artifact = 1\<rparr>]), (''b'', [\<lparr>artifact = 0\<rparr>])],
      smart_artifacts =
        [\<lparr>artifact_type = fhir_resource, data = JObj [(''resourceType'', JStr ''Coverage'')]\<rparr>,
         \<lparr>artifact_type = shl, data = JStr ''shlink:/y''\<rparr>]\<rparr> = Inr r' \<and>
     credentials r' =
       \<lparr>properties =
          [(''a'', [JObj [(''resourceType'', JStr ''Coverage'')], JStr ''shlink:/y'']),
           (''b'', [JObj [(''resourceType'', JStr ''Coverage'')]])],
        prototype = None\<rparr>)"
proof -
  have e: "Object_entries [(''b'', [\<lparr>artifact = 0\<rparr>]), (''__proto__'', [\<lparr>artifact = 1\<rparr>]),
                  (''7'', [\<lparr>artifact = 0\<rparr>, \<lparr>artifact = 1\<rparr>]), (''c'', [])]
     = [(''7'', [\<lparr>artifact = 0\<rparr>, \<lparr>artifact = 1\<rparr>]), (''b'', [\<lparr>artifact = 0\<rparr>]),
        (''__proto__'', [\<lparr>artifact = 1\<rparr>]), (''c'', [])]"
    by code_simp
  from rehydrateResponse_credentials
    [where r = "\<lparr>state = ''s'',
      vp_token = [(''b'', [\<lparr>artifact = 0\<rparr>]), (''__proto__'', [\<lparr>artifact = 1\<rparr>]),
                  (''7'', [\<lparr>artifact = 0\<rparr>, \<lparr>artifact = 1\<rparr>]), (''c'', [])],
      smart_artifacts =
        [\<lparr>artifact_type = fhir_resource, data = JObj [(''resourceType'', JStr ''Coverage'')]\<rparr>,
         \<lparr>artifact_type = shl, data = JStr ''shlink:/y''\<rparr>]\<rparr>"
     and X = "JObj [(''resourceType'', JStr ''Coverage'')]" and Y = "JStr ''shlink:/y''"
     and s = "''s''"]
  show ?thesis
    by (auto simp: array_get_def e)
qed

text \<open>
  The claim as first stated fails where an artifact's \<^verbatim>\<open>data\<close> is \<^verbatim>\<open>undefined\<close>: the entry
  is then the artifact object, not its data value.
\<close>

theorem rehydrateResponse_undefined_data:
  "rehydrateResponse
     \<lparr>state = ''s'',
      vp_token = [(''a'', [\<lparr>artifact = 0\<rparr>, \<lparr>artifact = 1\<rparr>]), (''b'', [\<lparr>artifact = 0\<rparr>])],
      smart_artifacts = [\<lparr>artifact_type = fhir_resource, data = JUndefined\<rparr>,
                         \<lparr>artifact_type = shl, data = JStr ''shlink:/y''\<rparr>]\<rparr>
   = Inr \<lparr>state = ''s'',
      vp_token = [(''a'', [\<lparr>artifact = 0\<rparr>, \<lparr>artifact = 1\<rparr>]), (''b'', [\<lparr>artifact = 0\<rparr>])],
      smart_artifacts = [\<lparr>artifact_type = fhir_resource, data = JUndefined\<rparr>,
                         \<lparr>artifact_type = shl, data = JStr ''shlink:/y''\<rparr>],
      credentials =
        \<lparr>properties =
           [(''a'', [JObj [(''type'', JStr ''fhir_resource''), (''data'', JUndefined)],
                     JStr ''shlink:/y'']),
            (''b'', [JObj [(''type'', JStr ''fhir_resource''), (''data'', JUndefined)]])],
         prototype = None\<rparr>\<rparr>
   \<and> [(''a'', [JObj [(''type'', JStr ''fhir_resource''), (''data'', JUndefined)],
                JStr ''shlink:/y'']),
       (''b'', [JObj [(''type'', JStr ''fhir_resource''), (''data'', JUndefined)]])]
     \<noteq> [(''a'', [JUndefined, JStr ''shlink:/y'']), (''b'', [JUndefined])]"
proof -
  have e: "Object_entries [(''a'', [\<lparr>artifact = 0\<rparr>, \<lparr>artifact = 1\<rparr>]), (''b'', [\<lparr>artifact = 0\<rparr>])]
      = [(''a'', [\<lparr>artifact = 0\<rparr>, \<lparr>artifact = 1\<rparr>]), (''b'', [\<lparr>artifact = 0\<rparr>])]"
    by code_simp
  show ?thesis
    by (simp add: rehydrateResponse_def e resolve_presentation_def array_get_def optional_data_def
      member_data_def artifact_value_def type_tag_def RawResponse.extend_def
      RehydratedResponse.fields_def assign_credential_def)
qed

text \<open>
  C9. Rehydration returns for every raw response, and a presentation whose index lies
  outside \<^verbatim>\<open>smart_artifacts\<close> (negative, or not below its length) contributes \<^verbatim>\<open>undefined\<close>
  at its position in the list of its credential id, the list that \<^verbatim>\<open>credentials[id]\<close> reads;
  no read aborts the call.
\<close>

theorem rehydrateResponse_total:
  "\<exists>r'. rehydrateResponse r = Inr r' \<and>
     (distinct (map fst (vp_token r)) \<longrightarrow>
       (\<forall>ident ps k. (ident, ps) \<in> set (vp_token r) \<and> k < length ps \<and>
          \<not> (0 \<le> artifact (ps ! k) \<and> artifact (ps ! k) < int (length (smart_artifacts r))) \<longrightarrow>
          (\<exists>vs. stored_credential (credentials r') ident = Some vs \<and> length vs = length ps \<and>
                vs ! k = JUndefined)))"
proof (cases "distinct (map fst (vp_token r))")
  case False
  then show ?thesis by (simp add: rehydrateResponse_eq)
next
  case True
  let ?f = "map (presentation_value (smart_artifacts r))"
  let ?c = "\<lparr>properties = map (\<lambda>(ident, ps). (ident, ?f ps))
                (filter (\<lambda>e. fst e \<noteq> ''__proto__'') (Object_entries (vp_token r))),
             prototype = map_option ?f (map_of (vp_token r) ''__proto__'')\<rparr>"
  let ?r' = "RawResponse.extend r (RehydratedResponse.fields ?c)"
  have total: "rehydrateResponse r = Inr ?r'"
    by (rule rehydrateResponse_distinct [OF True])
  have "\<exists>vs. stored_credential (credentials ?r') ident = Some vs \<and> length vs = length ps \<and>
          vs ! k = JUndefined"
    if h: "(ident, ps) \<in> set (vp_token r) \<and> k < length ps \<and>
      \<not> (0 \<le> artifact (ps ! k) \<and> artifact (ps ! k) < int (length (smart_artifacts r)))"
    for ident ps k
  proof -
    from h True have "map_of (vp_token r) ident = Some ps"
      by simp
    then have "stored_credential ?c ident = Some (?f ps)"
      by (simp add: stored_credential_rehydrated [OF True])
    moreover have "?f ps ! k = JUndefined"
      using h by (auto simp: presentation_value_def array_get_def)
    ultimately show ?thesis
      by (simp add: credentials_extend)
  qed
  with total show ?thesis by blast
qed

theorem rehydrateResponse_total_witness:
  "\<exists>r'. rehydrateResponse
          \<lparr>state = ''s'', vp_token = [(''a'', [\<lparr>artifact = 5\<rparr>, \<lparr>artifact = - 1\<rparr>])],
           smart_artifacts = [\<lparr>artifact_type = shc, data = JStr ''x''\<rparr>]\<rparr> = Inr r' \<and>
     (\<exists>vs. stored_credential (credentials r') ''a'' = Some vs \<and> length vs = 2 \<and> vs ! 1 = JUndefined)"
  using rehydrateResponse_total
    [of "\<lparr>state = ''s'', vp_token = [(''a'', [\<lparr>artifact = 5\<rparr>, \<lparr>artifact = - 1\<rparr>])],
          smart_artifacts = [\<lparr>artifact_type = shc, data = JStr ''x''\<rparr>]\<rparr>"]
  by fastforce

text \<open>
  C10. The result of rehydration carries the input's \<^verbatim>\<open>state\<close>, \<^verbatim>\<open>vp_token\<close> and
  \<^verbatim>\<open>smart_artifacts\<close> unchanged; cut back to the fields of a raw response it is the input,
  so \<^verbatim>\<open>credentials\<close> is the only field added.
\<close>

theorem rehydrateResponse_frame:
  "\<exists>r'. rehydrateResponse r = Inr r' \<and> state r' = state r \<and> vp_token r' = vp_token r \<and>
     smart_artifacts r' = smart_artifacts r \<and> RawResponse.truncate r' = r"
  by (simp add: rehydrateResponse_eq extend_sel truncate_extend)

theorem rehydrateResponse_frame_witness:
  "\<exists>r'. rehydrateResponse
          \<lparr>state = ''s'', vp_token = [(''a'', [\<lparr>artifact = 0\<rparr>])],
           smart_artifacts = [\<lparr>artifact_type = shc, data = JStr ''x''\<rparr>]\<rparr> = Inr r' \<and>
     state r' = ''s'' \<and> vp_token r' = [(''a'', [\<lparr>artifact = 0\<rparr>])] \<and>
     smart_artifacts r' = [\<lparr>artifact_type = shc, data = JStr ''x''\<rparr>]"
  using rehydrateResponse_frame
    [of "\<lparr>state = ''s'', vp_token = [(''a'', [\<lparr>artifact = 0\<rparr>])],
          smart_artifacts = [\<lparr>artifact_type = shc, data = JStr ''x''\<rparr>]\<rparr>"]
  by auto

section \<open>Properties of the pending exchange\<close>

lemma onmessage_ignored: "\<not> accepted (expected_state ex) m \<Longrightarrow> onmessage E ex m = ex"
  by (auto simp: onmessage_def accepted_def)

lemma onmessage_accepted:
  "accepted (expected_state ex) m \<Longrightarrow>
   \<not> chan_open (onmessage E ex m) \<and> \<not> timer_pending (onmessage E ex m)"
  by (auto simp: onmessage_def accepted_def settle_def cleanup_def
      split: option.splits sum.splits)

lemma step_closed: "\<not> chan_open ex \<Longrightarrow> \<not> timer_pending ex \<Longrightarrow> step E ex e = ex"
  by (cases e) simp_all

lemma run_closed: "\<not> chan_open ex \<Longrightarrow> \<not> timer_pending ex \<Longrightarrow> run E ex evs = ex"
  unfolding run_def by (induction evs) (simp_all add: step_closed)

lemma run_ignored:
  "chan_open ex \<Longrightarrow> \<forall>m\<in>set ms. \<not> accepted (expected_state ex) m \<Longrightarrow>
   run E ex (map Message ms) = ex"
  unfolding run_def by (induction ms) (simp_all add: onmessage_ignored)

lemma run_append: "run E ex (xs @ ys) = run E (run E ex xs) ys"
  by (simp add: run_def)

lemma run_Cons: "run E ex (e # es) = run E (step E ex e) es"
  by (simp add: run_def)

lemma request_pending:
  "rejected (request env q opts) = None \<Longrightarrow> pending (request env q opts) = Some ex \<Longrightarrow>
   chan_open ex \<and> timer_pending ex \<and> settled ex = None \<and>
   timer_delay ex = (case timeout opts of None \<Rightarrow> 120000 | Some t \<Rightarrow> t) \<and>
   shouldRehydrate ex = (rehydrate opts \<noteq> Some False) \<and>
   expected_state ex = generateRandomState (random_first env)"
  by (auto simp: request_def Let_def split: if_splits option.splits)

lemma example_request:
  "request example_browser example_query example_options =
     \<lparr>effects =
        [GetRandomValues, GetRandomValues,
         NewBroadcastChannel ''shl-0102030405060708090a0b0c0d0e0fff'', SetTimeout 120000,
         WindowOpen (''https://picker.example/?client_id=redirect_uri%3Ahttps%3A%2F%2Fclinic.example%2Fapp&response_type=vp_token&response_mode=fragment&nonce=102030405060708090a0b0c0d0e0f000&state=0102030405060708090a0b0c0d0e0fff&dcql_query=%7B%22credentials%22%3A%5B%7B%22id%22%3A%22coverage-1%22%2C%22format%22%3A%22smart_artifact%22%2C%22meta%22%3A%7B%22profile%22%3A%22http%3A%2F%2Fhl7.org%2Ffhir%2Fus%2Finsurance-card%2FStructureDefinition%2FC4DIC-Coverage%22%7D%7D%5D%7D'')],
      rejected = None, pending = Some example_exchange\<rparr>"
  by code_simp

text \<open>
  What holds of the first message that the handler acts on: the messages before it change
  nothing, it closes the channel and clears the timer, and every later event is a no-op.
  It settles the promise unless the handler throws, which it does where the conversion
  of the error to a string throws and where rehydration throws.
\<close>

lemma first_message_closes:
  assumes "rejected (request env q opts) = None"
    and "pending (request env q opts) = Some ex"
    and "\<forall>m\<in>set earlier. \<not> accepted (expected_state ex) m"
    and "accepted (expected_state ex) m"
  shows "run E ex (map Message earlier @ Message m # later) = onmessage E ex m \<and>
         \<not> chan_open (onmessage E ex m) \<and> \<not> timer_pending (onmessage E ex m)"
proof -
  from request_pending [OF assms(1,2)] have op: "chan_open ex"
    by simp
  have "run E ex (map Message earlier @ Message m # later) = run E (step E ex (Message m)) later"
    by (simp add: run_append run_Cons run_ignored [OF op assms(3)])
  also have "\<dots> = run E (onmessage E ex m) later"
    using op by simp
  also have "\<dots> = onmessage E ex m"
    using onmessage_accepted [OF assms(4)] by (simp add: run_closed)
  finally show ?thesis
    using onmessage_accepted [OF assms(4)] by simp
qed

lemma first_message_settles:
  assumes "accepted (expected_state ex) m" and "settled ex = None"
  shows "settled (onmessage E ex m) = None \<longleftrightarrow>
     (if truthy (property m ''error'') then
        (\<exists>e. ToString (if truthy (property m ''error_description'')
                         then property m ''error_description'' else property m ''error'') = Inl e)
      else shouldRehydrate ex \<and>
        (\<exists>e. rehydrateResponse_unchecked E (property m ''vp_token'')
                (property m ''smart_artifacts'') = Inl e))"
  using assms
  by (auto simp: onmessage_def accepted_def settle_def cleanup_def split: sum.splits)

lemma rehydrate_malformed:
  "rehydrateResponse_unchecked E (JObj [(''a'', JArr [JNull])]) (JArr []) = Inl TypeError"
proof -
  have "array_index ''a'' = None" by code_simp
  then have "Object_entries [(''a'', JArr [JNull])] = [(''a'', JArr [JNull])]"
    by (simp add: Object_entries_def)
  then show ?thesis
    by (simp add: rehydrateResponse_unchecked_def entries_of_def resolve_unchecked_def)
qed

text \<open>
  C1. The claim fails on the code. The exchange is the one that \<^verbatim>\<open>request\<close> leaves pending;
  the first message has the awaited state and carries both \<^verbatim>\<open>vp_token\<close> and
  \<^verbatim>\<open>smart_artifacts\<close>, and \<^verbatim>\<open>rehydrateResponse\<close> throws on what it carries. The handler has
  then run \<^verbatim>\<open>cleanup()\<close>, so the channel is closed and the timer cleared, and the promise is
  not settled by this message nor by anything that comes later.
\<close>

theorem first_message_unsettled:
  "pending (request example_browser example_query example_options) = Some example_exchange \<and>
   accepted (expected_state example_exchange) example_malformed \<and>
   rehydrateResponse_unchecked E (property example_malformed ''vp_token'')
     (property example_malformed ''smart_artifacts'') = Inl TypeError \<and>
   onmessage E example_exchange example_malformed =
     example_exchange\<lparr>timer_pending := False, chan_open := False, popup_window := Some True\<rparr> \<and>
   (\<forall>later. settled (run E example_exchange (Message example_malformed # later)) = None)"
proof -
  have p: "pending (request example_browser example_query example_options) = Some example_exchange"
    by (simp add: example_request)
  have f: "truthy example_malformed"
    "property example_malformed ''state'' = JStr ''0102030405060708090a0b0c0d0e0fff''"
    "property example_malformed ''error'' = JUndefined"
    "property example_malformed ''vp_token'' = JObj [(''a'', JArr [JNull])]"
    "property example_malformed ''smart_artifacts'' = JArr []"
    by (simp_all add: example_malformed_def property_def)
  have a: "accepted (expected_state example_exchange) example_malformed"
    by (simp add: accepted_def f example_exchange_def)
  have r: "rehydrateResponse_unchecked E (property example_malformed ''vp_token'')
     (property example_malformed ''smart_artifacts'') = Inl TypeError"
    by (simp add: f rehydrate_malformed)
  have h: "onmessage E example_exchange example_malformed =
     example_exchange\<lparr>timer_pending := False, chan_open := False, popup_window := Some True\<rparr>"
    by (simp add: onmessage_def f rehydrate_malformed cleanup_def example_exchange_def)
  have "settled (run E example_exchange (Message example_malformed # later)) = None" for later
  proof -
    have "run E example_exchange (Message example_malformed # later)
        = run E (onmessage E example_exchange example_malformed) later"
      by (simp add: run_Cons example_exchange_def)
    also have "\<dots> = onmessage E example_exchange example_malformed"
      using onmessage_accepted [OF a] by (simp add: run_closed)
    finally show ?thesis
      unfolding h by (simp add: example_exchange_def)
  qed
  with p a r h show ?thesis by blast
qed

theorem first_message_unsettled_witness:
  "onmessage example_engine example_exchange example_malformed =
     example_exchange\<lparr>timer_pending := False, chan_open := False, popup_window := Some True\<rparr> \<and>
   settled (run example_engine example_exchange
              [Message example_malformed,
               Message (example_success ''0102030405060708090a0b0c0d0e0fff'' ''second''),
               TimerFires]) = None"
  using first_message_unsettled [of example_engine]
  by simp

text \<open>
  C2. A falsy message, a message without \<^verbatim>\<open>state\<close>, and a message whose \<^verbatim>\<open>state\<close> differs
  from the awaited one leave the exchange exactly as it was: the promise, the timer, the
  channel and the popup are untouched, in the handler and in the event loop.
\<close>

theorem mismatch_ignored:
  "\<not> truthy ev_data \<or> property ev_data ''state'' \<noteq> JStr (expected_state ex) \<Longrightarrow>
   onmessage E ex ev_data = ex \<and> step E ex (Message ev_data) = ex"
  by (auto simp: onmessage_def)

theorem mismatch_ignored_witness:
  "onmessage example_engine example_exchange (example_success ''ffff'' ''stray'') = example_exchange \<and>
   step example_engine example_exchange (Message (example_success ''ffff'' ''stray''))
     = example_exchange \<and>
   onmessage example_engine example_exchange JNull = example_exchange \<and>
   onmessage example_engine example_exchange (JObj [(''error'', JStr ''access_denied'')])
     = example_exchange"
  using mismatch_ignored [where ev_data = "example_success ''ffff'' ''stray''"
      and ex = example_exchange and E = example_engine]
    mismatch_ignored [where ev_data = JNull and ex = example_exchange and E = example_engine]
    mismatch_ignored [where ev_data = "JObj [(''error'', JStr ''access_denied'')]"
      and ex = example_exchange and E = example_engine]
  by (simp add: example_success_def example_exchange_def property_def)

section \<open>Timeout\<close>

lemma ontimeout_pending:
  "settled ex = None \<Longrightarrow>
   settled (ontimeout ex) = Some (Rejected (JsError ''Request timeout'')) \<and>
   \<not> chan_open (ontimeout ex) \<and> \<not> timer_pending (ontimeout ex)"
  by (simp add: ontimeout_def settle_def cleanup_def)

lemma mismatch_not_accepted:
  "\<not> truthy m \<or> property m ''state'' \<noteq> JStr st \<Longrightarrow> \<not> accepted st m"
  by (auto simp: accepted_def)

lemma simple_request_pending:
  "simple_rejected (simple_request E env cr so) = None \<Longrightarrow>
   simple_pending (simple_request E env cr so) = Some sx \<Longrightarrow>
   simple_timer_delay sx = 300000 \<and> simple_timer_pending sx \<and> simple_chan_open sx \<and>
   simple_settled sx = None \<and> SetTimeout 300000 \<in> set (simple_effects (simple_request E env cr so))"
  by (auto simp: simple_request_def Let_def split: if_splits jsval.splits sum.splits)

lemma simple_ontimeout_pending:
  "simple_settled sx = None \<Longrightarrow>
   simple_settled (simple_ontimeout sx) = Some (SimpleRejected (JsError ''Request timeout after 5 minutes'')) \<and>
   \<not> simple_chan_open (simple_ontimeout sx) \<and> \<not> simple_timer_pending (simple_ontimeout sx)"
  by (simp add: simple_ontimeout_def simple_cleanup_def Let_def)

lemma request_timer_effect:
  "rejected (request env q opts) = None \<Longrightarrow>
   SetTimeout (case timeout opts of None \<Rightarrow> 120000 | Some t \<Rightarrow> t) \<in> set (effects (request env q opts))"
  by (auto simp: request_def Let_def split: if_splits option.splits)

text \<open>
  C6, as amended. In the check-in client library the timer is set to \<^verbatim>\<open>opts.timeout\<close> when
  that is supplied and to 120000 ms otherwise; while only messages without the awaited
  state arrive the promise stays pending, and when the timer then fires the promise is
  rejected with the error \<^verbatim>\<open>Request timeout\<close>, the channel is closed and the timer is no
  longer pending. In the library of the simple profile the timer is always set to
  300000 ms, whatever the options hold; when it fires the promise is rejected with
  \<^verbatim>\<open>Request timeout after 5 minutes\<close> and the channel is closed.
\<close>

theorem timeout_rejects:
  "(rejected (request env q opts) = None \<and> pending (request env q opts) = Some ex \<and>
    (\<forall>m\<in>set ms. \<not> truthy m \<or> property m ''state'' \<noteq> JStr (expected_state ex)) \<longrightarrow>
      timer_delay ex = (case timeout opts of None \<Rightarrow> 120000 | Some t \<Rightarrow> t) \<and>
      SetTimeout (timer_delay ex) \<in> set (effects (request env q opts)) \<and>
      settled (run E ex (map Message ms)) = None \<and>
      settled (run E ex (map Message ms @ [TimerFires])) = Some (Rejected (JsError ''Request timeout'')) \<and>
      \<not> chan_open (run E ex (map Message ms @ [TimerFires])) \<and>
      \<not> timer_pending (run E ex (map Message ms @ [TimerFires]))) \<and>
   (simple_rejected (simple_request E env' cr so) = None \<and>
    simple_pending (simple_request E env' cr so) = Some sx \<longrightarrow>
      simple_timer_delay sx = 300000 \<and>
      SetTimeout 300000 \<in> set (simple_effects (simple_request E env' cr so)) \<and>
      simple_settled (simple_ontimeout sx) =
        Some (SimpleRejected (JsError ''Request timeout after 5 minutes'')) \<and>
      \<not> simple_chan_open (simple_ontimeout sx))"
proof (intro conjI impI)
  assume a: "rejected (request env q opts) = None \<and> pending (request env q opts) = Some ex \<and>
    (\<forall>m\<in>set ms. \<not> truthy m \<or> property m ''state'' \<noteq> JStr (expected_state ex))"
  then have p: "chan_open ex" "timer_pending ex" "settled ex = None"
      "timer_delay ex = (case timeout opts of None \<Rightarrow> 120000 | Some t \<Rightarrow> t)"
    using request_pending [of env q opts ex] by simp_all
  from a have "\<forall>m\<in>set ms. \<not> accepted (expected_state ex) m"
    by (auto simp: accepted_def)
  then have r: "run E ex (map Message ms) = ex"
    by (rule run_ignored [OF p(1)])
  have t: "run E ex (map Message ms @ [TimerFires]) = ontimeout ex"
  proof -
    have "run E ex (map Message ms @ [TimerFires]) = run E ex [TimerFires]"
      by (simp only: run_append r)
    then show ?thesis using p(2) by (simp add: run_def)
  qed
  show "timer_delay ex = (case timeout opts of None \<Rightarrow> 120000 | Some t \<Rightarrow> t)" by (rule p(4))
  show "SetTimeout (timer_delay ex) \<in> set (effects (request env q opts))"
    using a request_timer_effect [of env q opts] by (simp add: p(4))
  show "settled (run E ex (map Message ms)) = None" by (simp add: r p(3))
  show "settled (run E ex (map Message ms @ [TimerFires])) = Some (Rejected (JsError ''Request timeout''))"
    using ontimeout_pending [OF p(3)] by (simp add: t)
  show "\<not> chan_open (run E ex (map Message ms @ [TimerFires]))"
    using ontimeout_pending [OF p(3)] by (simp add: t)
  show "\<not> timer_pending (run E ex (map Message ms @ [TimerFires]))"
    using ontimeout_pending [OF p(3)] by (simp add: t)
next
  assume b: "simple_rejected (simple_request E env' cr so) = None \<and>
    simple_pending (simple_request E env' cr so) = Some sx"
  then have s: "simple_timer_delay sx = 300000" "simple_settled sx = None"
      "SetTimeout 300000 \<in> set (simple_effects (simple_request E env' cr so))"
    using simple_request_pending [of E env' cr so sx] by simp_all
  show "simple_timer_delay sx = 300000" by (rule s(1))
  show "SetTimeout 300000 \<in> set (simple_effects (simple_request E env' cr so))" by (rule s(3))
  show "simple_settled (simple_ontimeout sx) =
        Some (SimpleRejected (JsError ''Request timeout after 5 minutes''))"
    using simple_ontimeout_pending [OF s(2)] by simp
  show "\<not> simple_chan_open (simple_ontimeout sx)"
    using simple_ontimeout_pending [OF s(2)] by simp
qed

theorem timeout_rejects_witness:
  "rejected (request example_browser example_query example_options) = None \<and>
   pending (request example_browser example_query example_options) = Some example_exchange \<and>
   timer_delay example_exchange = 120000 \<and>
   SetTimeout 120000 \<in> set (effects (request example_browser example_query example_options)) \<and>
   settled (run example_engine example_exchange [Message (example_success ''ffff'' ''stray''), Message JNull]) = None \<and>
   settled (run example_engine example_exchange
              [Message (example_success ''ffff'' ''stray''), Message JNull, TimerFires])
     = Some (Rejected (JsError ''Request timeout'')) \<and>
   \<not> chan_open (run example_engine example_exchange
                  [Message (example_success ''ffff'' ''stray''), Message JNull, TimerFires]) \<and>
   simple_rejected (simple_request example_engine example_browser example_credential_request example_simple_options)
     = None \<and>
   (case simple_pending (simple_request example_engine example_browser example_credential_request
                           example_simple_options) of
      None \<Rightarrow> False
    | Some sx \<Rightarrow>
        simple_timer_delay sx = 300000 \<and>
        simple_settled (simple_ontimeout sx)
          = Some (SimpleRejected (JsError ''Request timeout after 5 minutes'')) \<and>
        \<not> simple_chan_open (simple_ontimeout sx))"
proof -
  have r: "rejected (request example_browser example_query example_options) = None"
    "pending (request example_browser example_query example_options) = Some example_exchange"
    by (simp_all add: example_request)
  have m: "\<forall>m\<in>set [example_success ''ffff'' ''stray'', JNull].
      \<not> truthy m \<or> property m ''state'' \<noteq> JStr (expected_state example_exchange)"
    by (simp add: example_success_def example_exchange_def property_def)
  have s: "simple_rejected (simple_request example_engine example_browser example_credential_request
      example_simple_options) = None"
    by code_simp
  have "simple_pending (simple_request example_engine example_browser example_credential_request
      example_simple_options) \<noteq> None"
    by code_simp
  then obtain sx where sx: "simple_pending (simple_request example_engine example_browser
      example_credential_request example_simple_options) = Some sx"
    by auto
  have t: "timeout example_options = None"
    by (simp add: example_options_def)
  note T = timeout_rejects [where env = example_browser and q = example_query
      and opts = example_options and ex = example_exchange
      and ms = "[example_success ''ffff'' ''stray'', JNull]"
      and env' = example_browser and cr = example_credential_request
      and so = example_simple_options and sx = sx and E = example_engine]
  have A: "rejected (request example_browser example_query example_options) = None \<and>
      pending (request example_browser example_query example_options) = Some example_exchange \<and>
      (\<forall>m\<in>set [example_success ''ffff'' ''stray'', JNull].
         \<not> truthy m \<or> property m ''state'' \<noteq> JStr (expected_state example_exchange))"
    using r m by blast
  have B: "simple_rejected (simple_request example_engine example_browser example_credential_request
        example_simple_options) = None \<and>
      simple_pending (simple_request example_engine example_browser example_credential_request
        example_simple_options) = Some sx"
    using s sx by blast
  note CA = T [THEN conjunct1, THEN mp, OF A]
  note CB = T [THEN conjunct2, THEN mp, OF B]
  have d: "timer_delay example_exchange = 120000"
    using CA by (simp add: t)
  have "SetTimeout 120000 \<in> set (effects (request example_browser example_query example_options))"
    using CA by (simp only: d)
  then show ?thesis
    using r s d CA CB by (simp add: sx)
qed

text \<open>
  The claim as first stated fails for the simple profile: with \<^verbatim>\<open>timeout: 1000\<close> among the
  options the timer is set to 300000 ms, neither the option nor 120000 ms.
\<close>

theorem simple_timer_fixed:
  "simple_rejected (simple_request example_engine example_browser example_credential_request example_simple_options)
     = None \<and>
   property example_simple_options ''timeout'' = JNum 1000 \<and>
   map_option simple_timer_delay
     (simple_pending (simple_request example_engine example_browser example_credential_request
                        example_simple_options)) = Some 300000 \<and>
   (300000 :: int) \<noteq> 1000 \<and> (300000 :: int) \<noteq> 120000"
  by code_simp


section \<open>Popup blocked\<close>

text \<open>
  C4. In both libraries, when \<^verbatim>\<open>window.open\<close> is called and returns no window, the call
  of \<^verbatim>\<open>request\<close> ends by closing the channel, and its promise is rejected with the
  popup-blocked error when the call returns: the exchange's own promise is still
  pending and its timer still running, so nothing has waited for the timeout.
\<close>

theorem popup_blocked_rejects:
  "(\<not> popup_allowed env \<and> list_ex is_window_open (effects (request env q opts)) \<longrightarrow>
      rejected (request env q opts) =
        Some (JsError ''Popup blocked - please allow popups for this site'') \<and>
      last (effects (request env q opts)) =
        BroadcastChannelClose (''shl-'' @ generateRandomState (random_first env)) \<and>
      (\<exists>ex. pending (request env q opts) = Some ex \<and> \<not> chan_open ex \<and> settled ex = None \<and>
            timer_pending ex)) \<and>
   (\<not> popup_allowed env' \<and> list_ex is_window_open (simple_effects (simple_request E env' cr so)) \<longrightarrow>
      simple_rejected (simple_request E env' cr so) =
        Some (JsError ''Popup blocked - please allow popups for this site'') \<and>
      last (simple_effects (simple_request E env' cr so)) =
        BroadcastChannelClose (''shl-'' @ generateRandomState (random_first env')) \<and>
      (\<exists>sx. simple_pending (simple_request E env' cr so) = Some sx \<and> \<not> simple_chan_open sx \<and>
            simple_settled sx = None \<and> simple_timer_pending sx))"
  by (auto simp: request_def simple_request_def Let_def is_window_open_def
      split: if_splits option.splits jsval.splits sum.splits)

theorem popup_blocked_rejects_witness:
  "\<not> popup_allowed blocked_browser \<and>
   list_ex is_window_open (effects (request blocked_browser example_query example_options)) \<and>
   rejected (request blocked_browser example_query example_options) =
     Some (JsError ''Popup blocked - please allow popups for this site'') \<and>
   last (effects (request blocked_browser example_query example_options)) =
     BroadcastChannelClose ''shl-0102030405060708090a0b0c0d0e0fff'' \<and>
   list_ex is_window_open
     (simple_effects (simple_request example_engine blocked_browser example_credential_request
                        example_simple_options)) \<and>
   simple_rejected (simple_request example_engine blocked_browser example_credential_request
                      example_simple_options) =
     Some (JsError ''Popup blocked - please allow popups for this site'') \<and>
   last (simple_effects (simple_request example_engine blocked_browser example_credential_request
                           example_simple_options)) =
     BroadcastChannelClose ''shl-0102030405060708090a0b0c0d0e0fff''"
proof -
  have b: "\<not> popup_allowed blocked_browser"
    by (simp add: blocked_browser_def)
  have w: "list_ex is_window_open (effects (request blocked_browser example_query example_options))"
    by code_simp
  have w': "list_ex is_window_open
     (simple_effects (simple_request example_engine blocked_browser example_credential_request
                        example_simple_options))"
    by code_simp
  have g: "generateRandomState (random_first blocked_browser) = ''0102030405060708090a0b0c0d0e0fff''"
    by code_simp
  note T = popup_blocked_rejects [where env = blocked_browser and q = example_query
      and opts = example_options and env' = blocked_browser
      and cr = example_credential_request and so = example_simple_options
      and E = example_engine]
  note CA = T [THEN conjunct1, THEN mp, OF conjI [OF b w]]
  note CB = T [THEN conjunct2, THEN mp, OF conjI [OF b w']]
  show ?thesis using b w w' CA CB by (simp add: g)
qed

section \<open>Validation of the arguments\<close>

text \<open>
  C5, as amended. \<^verbatim>\<open>request\<close> checks that \<^verbatim>\<open>checkinBase\<close> is not empty once its trailing
  slashes are removed, and that the query is truthy and has an array as \<^verbatim>\<open>credentials\<close>.
  When a check fails the promise is rejected at once with an \<^verbatim>\<open>Error\<close> naming the check,
  and nothing has been done: no random state, no channel, no timer, no window. When
  both hold the call goes on to draw the state and the nonce and to open the channel;
  neither an empty list of credentials nor a repeated id stops it.
\<close>

theorem request_validation:
  "(strip_trailing (CHR ''/'') (checkinBase opts) = [] \<longrightarrow>
      request env q opts =
        \<lparr>effects = [], rejected = Some (JsError ''checkinBase required''), pending = None\<rparr>) \<and>
   (strip_trailing (CHR ''/'') (checkinBase opts) \<noteq> [] \<and>
    (\<not> truthy q \<or> \<not> is_array (property q ''credentials'')) \<longrightarrow>
      request env q opts =
        \<lparr>effects = [],
         rejected = Some (JsError ''dcqlQuery must be an object with a credentials array''),
         pending = None\<rparr>) \<and>
   (strip_trailing (CHR ''/'') (checkinBase opts) \<noteq> [] \<and> truthy q \<and>
    is_array (property q ''credentials'') \<longrightarrow>
      take 3 (effects (request env q opts)) =
        [GetRandomValues, GetRandomValues,
         NewBroadcastChannel (''shl-'' @ generateRandomState (random_first env))] \<and>
      pending (request env q opts) \<noteq> None)"
  by (auto simp: request_def Let_def split: if_splits option.splits)


theorem request_validation_witness:
  "request example_browser example_query (example_options\<lparr>checkinBase := ''///''\<rparr>) =
     \<lparr>effects = [], rejected = Some (JsError ''checkinBase required''), pending = None\<rparr> \<and>
   request example_browser (JObj [(''credentials'', JStr ''coverage-1'')]) example_options =
     \<lparr>effects = [],
      rejected = Some (JsError ''dcqlQuery must be an object with a credentials array''),
      pending = None\<rparr> \<and>
   request example_browser JNull example_options =
     \<lparr>effects = [],
      rejected = Some (JsError ''dcqlQuery must be an object with a credentials array''),
      pending = None\<rparr> \<and>
   take 3 (effects (request example_browser example_query example_options)) =
     [GetRandomValues, GetRandomValues, NewBroadcastChannel ''shl-0102030405060708090a0b0c0d0e0fff''] \<and>
   pending (request example_browser example_query example_options) \<noteq> None"
proof -
  have g: "generateRandomState (random_first example_browser) = ''0102030405060708090a0b0c0d0e0fff''"
    by code_simp
  have s: "strip_trailing (CHR ''/'') (checkinBase (example_options\<lparr>checkinBase := ''///''\<rparr>)) = []"
    "strip_trailing (CHR ''/'') (checkinBase example_options) \<noteq> []"
    by (simp_all add: strip_trailing_def example_options_def)
  have q: "\<not> is_array (property (JObj [(''credentials'', JStr ''coverage-1'')]) ''credentials'')"
    "\<not> truthy JNull" "truthy example_query" "is_array (property example_query ''credentials'')"
    by (simp_all add: is_array_def property_def example_query_def)
  show ?thesis
    using request_validation [where env = example_browser and q = example_query
        and opts = "example_options\<lparr>checkinBase := ''///''\<rparr>"]
      request_validation [where env = example_browser
        and q = "JObj [(''credentials'', JStr ''coverage-1'')]" and opts = example_options]
      request_validation [where env = example_browser and q = JNull and opts = example_options]
      request_validation [where env = example_browser and q = example_query
        and opts = example_options]
      s q
    by (simp add: g)
qed

text \<open>
  The claim as first stated fails: an empty list of credentials and a list with a repeated
  id are both accepted, and the call proceeds to its effects.
\<close>

theorem request_unchecked_query:
  "rejected (request example_browser (JObj [(''credentials'', JArr [])]) example_options) = None \<and>
   effects (request example_browser (JObj [(''credentials'', JArr [])]) example_options) \<noteq> [] \<and>
   rejected (request example_browser
     (JObj [(''credentials'',
             JArr [JObj [(''id'', JStr ''a''), (''format'', JStr ''smart_artifact'')],
                   JObj [(''id'', JStr ''a''), (''format'', JStr ''smart_artifact'')]])])
     example_options) = None \<and>
   effects (request example_browser
     (JObj [(''credentials'',
             JArr [JObj [(''id'', JStr ''a''), (''format'', JStr ''smart_artifact'')],
                   JObj [(''id'', JStr ''a''), (''format'', JStr ''smart_artifact'')]])])
     example_options) \<noteq> []"
  by code_simp


section \<open>The envelope codec\<close>

lemma btoa_sextets: "btoa bs = map base64_char (sextets bs) @ padding bs"
  by (induction bs rule: btoa.induct) (simp_all add: padding_def numeral_2_eq_2)

lemma unat_byte: "unat (a :: byte) < 256"
  using unsigned_less [of a, where 'a = nat] by simp

lemma s1: "x < 256 \<Longrightarrow> x div 4 < (64::nat)" by arith
lemma s2: "y < 256 \<Longrightarrow> (x mod 4) * 16 + y div 16 < (64::nat)" by arith
lemma s3: "z < 256 \<Longrightarrow> (y mod 16) * 4 + z div 64 < (64::nat)" by arith
lemma s2': "(x mod 4) * 16 < (64::nat)" by arith
lemma s3': "(y mod 16) * 4 < (64::nat)" by arith

lemma sextets_bound: "list_all (\<lambda>v. v < 64) (sextets bs)"
  by (induction bs rule: sextets.induct) (simp_all add: s1 s2 s3 s2' s3' unat_byte)

lemma group1: "y < 256 \<Longrightarrow> (x div 4) * 4 + ((x mod 4) * 16 + y div 16) div 16 = (x::nat)"
  by (simp add: div_mult2_eq [symmetric])
lemma group2: "y < 256 \<Longrightarrow> z < 256 \<Longrightarrow> (((x mod 4) * 16 + y div 16) mod 16) * 16 + ((y mod 16) * 4 + z div 64) div 4 = (y::nat)"
  by (simp add: div_mult2_eq [symmetric])
lemma group3: "z < 256 \<Longrightarrow> (((y mod 16) * 4 + z div 64) mod 4) * 64 + z mod 64 = (z::nat)"
  by (simp add: div_mult2_eq [symmetric])
lemma group1': "(x div 4) * 4 + ((x mod 4) * 16) div 16 = (x::nat)"
  by simp
lemma group2': "y < 256 \<Longrightarrow> (((x mod 4) * 16 + y div 16) mod 16) * 16 + ((y mod 16) * 4) div 4 = (y::nat)"
  by (simp add: div_mult2_eq [symmetric])

lemma sextets_to_bytes_sextets: "sextets_to_bytes (sextets bs) = bs"
proof (induction bs rule: sextets.induct)
  case 1
  show ?case by simp
next
  case (2 a)
  show ?case by (simp only: sextets.simps sextets_to_bytes.simps group1' of_nat_unat ucast_id)
next
  case (3 a b)
  show ?case by (simp only: sextets.simps sextets_to_bytes.simps group1 [OF unat_byte] group2' [OF unat_byte] of_nat_unat ucast_id)
next
  case (4 a b c rest)
  then show ?case
    by (simp only: sextets.simps sextets_to_bytes.simps append.simps group1 [OF unat_byte]
        group2 [OF unat_byte unat_byte] group3 [OF unat_byte] of_nat_unat ucast_id)
qed

lemma alphabet_values: "list_all (\<lambda>v. base64_value (base64_char v) = Some v) [0..<64]"
  by code_simp

lemma alphabet_chars:
  "list_all (\<lambda>v. base64_char v \<noteq> CHR ''='' \<and> base64_char v \<noteq> CHR ''-'' \<and> base64_char v \<noteq> CHR ''_'' \<and>
      \<not> is_ascii_whitespace (base64_char v)) [0..<64]"
  by code_simp

lemma base64_value_char: "v < 64 \<Longrightarrow> base64_value (base64_char v) = Some v"
  using alphabet_values by (simp add: list_all_iff)

lemma base64_char_plain:
  "v < 64 \<Longrightarrow> base64_char v \<noteq> CHR ''='' \<and> base64_char v \<noteq> CHR ''-'' \<and> base64_char v \<noteq> CHR ''_'' \<and>
      \<not> is_ascii_whitespace (base64_char v)"
  using alphabet_chars by (simp add: list_all_iff)

lemma those_values_chars:
  "list_all (\<lambda>v. v < 64) vs \<Longrightarrow> those_values (map base64_char vs) = Some vs"
  by (induction vs) (simp_all add: base64_value_char)

lemma padding_step: "padding (a # b # c # rest) = padding rest"
proof -
  have "length (a # b # c # rest) = length rest + 3" by simp
  then show ?thesis by (simp only: padding_def mod_add_self2)
qed

lemma padding_length:
  "(if length (sextets bs) mod 4 \<noteq> 0 then replicate (4 - length (sextets bs) mod 4) (CHR ''='') else [])
     = padding bs"
proof (induction bs rule: sextets.induct)
  case 1
  show ?case by (simp add: padding_def)
next
  case (2 a)
  show ?case by (simp add: padding_def numeral_2_eq_2)
next
  case (3 a b)
  show ?case by (simp add: padding_def)
next
  case (4 a b c rest)
  have "length (sextets (a # b # c # rest)) = length (sextets rest) + 4" by simp
  then show ?case using 4 by (simp only: mod_add_self2 padding_step)
qed

lemma padding_le: "\<exists>k\<le>2. padding bs = replicate k (CHR ''='')"
proof -
  have "(3 - length bs mod 3) mod 3 < 3" by simp
  then have "(3 - length bs mod 3) mod 3 \<le> 2" by simp
  then show ?thesis unfolding padding_def by blast
qed

lemma sextets_length_mod: "length (sextets bs) mod 4 \<noteq> 1"
  by (induction bs rule: sextets.induct) simp_all

lemma btoa_length: "length (btoa bs) mod 4 = 0"
  by (induction bs rule: btoa.induct) simp_all

lemma dropWhile_absent: "x \<notin> set ys \<Longrightarrow> dropWhile (\<lambda>c. c = x) ys = ys"
  by (cases ys) auto

lemma strip_trailing_replicate:
  "x \<notin> set xs \<Longrightarrow> strip_trailing x (xs @ replicate k x) = xs"
proof -
  assume a: "x \<notin> set xs"
  have "dropWhile (\<lambda>c. c = x) (replicate k x @ rev xs) = dropWhile (\<lambda>c. c = x) (rev xs)"
    by (induction k) simp_all
  also have "\<dots> = rev xs"
    using a by (simp add: dropWhile_absent)
  finally show ?thesis
    by (simp add: strip_trailing_def)
qed

lemma strip_padding_body:
  assumes "CHR ''='' \<notin> set body" "k \<le> 2" "length (body @ replicate k (CHR ''='')) mod 4 = 0"
  shows "strip_padding (body @ replicate k (CHR ''='')) = body"
proof -
  consider "k = 0" | "k = 1" | "k = 2" using assms(2) by linarith
  then show ?thesis
  proof cases
    case 1
    have a: "drop n body \<noteq> ''==''" for n
      using assms(1) set_drop_subset [of n body] by (auto simp del: set_drop_subset)
    have b: "drop n body \<noteq> ''=''" for n
      using assms(1) set_drop_subset [of n body] by (auto simp del: set_drop_subset)
    show ?thesis using 1 by (simp add: strip_padding_def a b)
  next
    case 2
    have "drop (length body - Suc 0) body @ ''='' \<noteq> ''==''"
    proof
      assume e: "drop (length body - Suc 0) body @ ''='' = ''==''"
      then have "drop (length body - Suc 0) body = ''=''" by simp
      then have "CHR ''='' \<in> set (drop (length body - Suc 0) body)" by simp
      then show False using assms(1) set_drop_subset [of "length body - Suc 0" body] by blast
    qed
    then show ?thesis using 2 assms(3) by (simp add: strip_padding_def)
  next
    case 3
    then show ?thesis using assms(3) by (simp add: strip_padding_def numeral_2_eq_2)
  qed
qed

lemma replace_twice:
  "replace_all (CHR ''/'') (CHR ''_'') (replace_all (CHR ''+'') (CHR ''-'') s) = map url_safe s"
  by (simp add: replace_all_def url_safe_def)

lemma replace_back:
  "list_all (\<lambda>v. v < 64) vs \<Longrightarrow>
   replace_all (CHR ''_'') (CHR ''/'') (replace_all (CHR ''-'') (CHR ''+'') (map url_safe (map base64_char vs)))
     = map base64_char vs"
  by (induction vs) (auto simp: replace_all_def url_safe_def dest: base64_char_plain)

lemma url_safe_no_pad: "list_all (\<lambda>v. v < 64) vs \<Longrightarrow> CHR ''='' \<notin> set (map url_safe (map base64_char vs))"
  by (induction vs) (auto simp: url_safe_def dest: base64_char_plain)

lemma body_no_pad: "list_all (\<lambda>v. v < 64) vs \<Longrightarrow> CHR ''='' \<notin> set (map base64_char vs)"
  by (induction vs) (auto dest: base64_char_plain)

lemma body_no_ws:
  "list_all (\<lambda>v. v < 64) vs \<Longrightarrow> filter (\<lambda>c. \<not> is_ascii_whitespace c) (map base64_char vs) = map base64_char vs"
  by (induction vs) (auto dest: base64_char_plain)

lemma b64u_eq:
  assumes "int (length bs) \<le> argument_limit E"
  shows "b64u E bs = Inr (map url_safe (map base64_char (sextets bs)))"
proof -
  have b: "b64u E bs = Inr (strip_trailing (CHR ''='')
      (replace_all (CHR ''/'') (CHR ''_'') (replace_all (CHR ''+'') (CHR ''-'') (btoa bs))))"
    using assms by (simp add: b64u_def String_fromCharCode_def)
  obtain k where k: "padding bs = replicate k (CHR ''='')" using padding_le by blast
  have "url_safe (CHR ''='') = CHR ''=''"
    by (simp add: url_safe_def)
  then have "map url_safe (btoa bs) = map url_safe (map base64_char (sextets bs)) @ replicate k (CHR ''='')"
    by (simp add: btoa_sextets k)
  then show ?thesis
    by (simp only: b replace_twice strip_trailing_replicate [OF url_safe_no_pad [OF sextets_bound]])
qed

lemma atob_btoa: "atob (btoa bs) = Inr bs"
proof -
  let ?body = "map base64_char (sextets bs)"
  obtain k where k: "k \<le> 2" "padding bs = replicate k (CHR ''='')" using padding_le by blast
  have ws: "filter (\<lambda>c. \<not> is_ascii_whitespace c) (?body @ replicate k (CHR ''='')) = ?body @ replicate k (CHR ''='')"
  proof -
    have "\<not> is_ascii_whitespace (CHR ''='')" by (simp add: is_ascii_whitespace_def)
    then show ?thesis by (simp add: body_no_ws [OF sextets_bound])
  qed
  have len: "length (?body @ replicate k (CHR ''='')) mod 4 = 0"
    using btoa_length [of bs] by (simp add: btoa_sextets k)
  have sp: "strip_padding (?body @ replicate k (CHR ''='')) = ?body"
    by (rule strip_padding_body [OF body_no_pad [OF sextets_bound] k(1) len])
  have "atob (btoa bs) = atob (?body @ replicate k (CHR ''=''))"
    by (simp only: btoa_sextets k)
  also have "\<dots> = (if length ?body mod 4 = 1 then Inl InvalidCharacterError
                    else (case those_values ?body of
                            None \<Rightarrow> Inl InvalidCharacterError
                          | Some vs \<Rightarrow> Inr (sextets_to_bytes vs)))"
    by (simp only: atob_def Let_def ws sp)
  also have "\<dots> = Inr bs"
    using sextets_length_mod [of bs]
    by (simp add: those_values_chars [OF sextets_bound] sextets_to_bytes_sextets)
  finally show ?thesis .
qed

text \<open>Below the engine's limit, \<^verbatim>\<open>ub64\<close> reads back the bytes that \<^verbatim>\<open>b64u\<close> has encoded.\<close>

lemma ub64_b64u:
  assumes "int (length bs) \<le> argument_limit E"
  shows "\<exists>t. b64u E bs = Inr t \<and> ub64 t = Inr bs"
proof -
  let ?t = "map url_safe (map base64_char (sextets bs))"
  have "ub64 ?t = atob (map base64_char (sextets bs) @ padding bs)"
    by (simp only: ub64_def Let_def length_map padding_length replace_back [OF sextets_bound])
  then have "ub64 ?t = Inr bs" by (simp add: btoa_sextets [symmetric] atob_btoa)
  with b64u_eq [OF assms] show ?thesis by simp
qed

lemma length_concat_replicate: "length (concat (replicate n [c])) = n"
  by (induction n) simp_all

text \<open>
  C7. The claim fails on the code for an envelope whose JSON text is longer than the
  number of arguments that the engine accepts in one call: \<^verbatim>\<open>b64u\<close> passes one argument for
  each byte of the text to \<^verbatim>\<open>String.fromCharCode\<close>, that call throws a RangeError, and so
  does \<^verbatim>\<open>encJ\<close>. Here the envelope is a response whose payload is a string of as many
  characters as the limit.
\<close>

theorem encJ_large_envelope:
  "encJ E (JObj [(''v'', JNum 1), (''state'', JStr st),
                 (''payload'', JStr (replicate (nat (argument_limit E)) (CHR ''a'')))])
     = Inl RangeError"
  by (simp add: encJ_def b64u_def String_fromCharCode_def TextEncoder_encode_def join_def
      quote_def escape_char_def length_concat_replicate)

section \<open>parseReturnHash\<close>

lemma parseReturnHash_params:
  "parseReturnHash hash =
     (if hash = [] \<or> hash = ''#'' then Inr None else return_of_params (fragment_params hash))"
  by (simp only: parseReturnHash_def Let_def fragment_params_def)

lemma return_of_params_cases:
  "(\<not> truthy_string (params_get p ''state'') \<longrightarrow> return_of_params p = Inr None) \<and>
   (params_get p ''vp_token'' = None \<and> \<not> truthy_string (params_get p ''error'') \<longrightarrow>
      return_of_params p = Inr None) \<and>
   (params_get p ''smart_artifacts'' = None \<and> \<not> truthy_string (params_get p ''error'') \<longrightarrow>
      return_of_params p = Inr None) \<and>
   (return_of_params p = Inr None \<or>
    (\<exists>st err. return_of_params p =
         Inr (Some (ParsedReturnError st err
                (if truthy_string (params_get p ''error_description'')
                 then params_get p ''error_description'' else None))) \<and>
       st \<noteq> [] \<and> err \<noteq> [] \<and>
       params_get p ''state'' = Some st \<and> params_get p ''error'' = Some err) \<or>
    (\<exists>st vpToken smartArtifacts vp arts.
       return_of_params p = Inr (Some (ParsedReturnSuccess st vp arts)) \<and> st \<noteq> [] \<and>
       params_get p ''state'' = Some st \<and>
       params_get p ''vp_token'' = Some vpToken \<and>
       params_get p ''smart_artifacts'' = Some smartArtifacts \<and>
       JSON_parse vpToken = Some vp \<and> JSON_parse smartArtifacts = Some arts) \<or>
    (\<exists>vpToken smartArtifacts.
       return_of_params p = Inl SyntaxError \<and>
       truthy_string (params_get p ''state'') \<and>
       \<not> truthy_string (params_get p ''error'') \<and>
       params_get p ''vp_token'' = Some vpToken \<and> vpToken \<noteq> [] \<and>
       params_get p ''smart_artifacts'' = Some smartArtifacts \<and> smartArtifacts \<noteq> [] \<and>
       (JSON_parse vpToken = None \<or> JSON_parse smartArtifacts = None)))"
  unfolding return_of_params_def truthy_string_def
  by (auto split: option.splits)

text \<open>
  C8, as amended. For every hash string \<^verbatim>\<open>parseReturnHash\<close> returns \<^verbatim>\<open>null\<close>, or an error
  envelope with the fragment's non-empty \<^verbatim>\<open>state\<close> and \<^verbatim>\<open>error\<close>, or a success envelope
  with the non-empty \<^verbatim>\<open>state\<close> and the parsed \<^verbatim>\<open>vp_token\<close> and \<^verbatim>\<open>smart_artifacts\<close>, or it
  throws the parser's SyntaxError; it throws only when the fragment carries a non-empty
  \<^verbatim>\<open>state\<close>, no non-empty \<^verbatim>\<open>error\<close>, and non-empty \<^verbatim>\<open>vp_token\<close> and \<^verbatim>\<open>smart_artifacts\<close> of
  which one is not JSON. It returns \<^verbatim>\<open>null\<close> for the empty hash, for \<^verbatim>\<open>#\<close>, for a fragment
  without a non-empty \<^verbatim>\<open>state\<close>, and for a fragment that has no \<^verbatim>\<open>error\<close> and lacks
  \<^verbatim>\<open>vp_token\<close> or \<^verbatim>\<open>smart_artifacts\<close>; so it does not throw on a fragment that lacks any
  of these parameters.
\<close>

theorem parseReturnHash_cases:
  "(hash = [] \<or> hash = ''#'' \<longrightarrow> parseReturnHash hash = Inr None) \<and>
   (\<not> truthy_string (params_get (fragment_params hash) ''state'') \<longrightarrow>
      parseReturnHash hash = Inr None) \<and>
   (params_get (fragment_params hash) ''vp_token'' = None \<and>
    \<not> truthy_string (params_get (fragment_params hash) ''error'') \<longrightarrow>
      parseReturnHash hash = Inr None) \<and>
   (params_get (fragment_params hash) ''smart_artifacts'' = None \<and>
    \<not> truthy_string (params_get (fragment_params hash) ''error'') \<longrightarrow>
      parseReturnHash hash = Inr None) \<and>
   (parseReturnHash hash = Inr None \<or>
    (\<exists>st err. parseReturnHash hash =
         Inr (Some (ParsedReturnError st err
                (if truthy_string (params_get (fragment_params hash) ''error_description'')
                 then params_get (fragment_params hash) ''error_description'' else None))) \<and>
       st \<noteq> [] \<and> err \<noteq> [] \<and>
       params_get (fragment_params hash) ''state'' = Some st \<and>
       params_get (fragment_params hash) ''error'' = Some err) \<or>
    (\<exists>st vpToken smartArtifacts vp arts.
       parseReturnHash hash = Inr (Some (ParsedReturnSuccess st vp arts)) \<and> st \<noteq> [] \<and>
       params_get (fragment_params hash) ''state'' = Some st \<and>
       params_get (fragment_params hash) ''vp_token'' = Some vpToken \<and>
       params_get (fragment_params hash) ''smart_artifacts'' = Some smartArtifacts \<and>
       JSON_parse vpToken = Some vp \<and> JSON_parse smartArtifacts = Some arts) \<or>
    (\<exists>vpToken smartArtifacts.
       parseReturnHash hash = Inl SyntaxError \<and>
       truthy_string (params_get (fragment_params hash) ''state'') \<and>
       \<not> truthy_string (params_get (fragment_params hash) ''error'') \<and>
       params_get (fragment_params hash) ''vp_token'' = Some vpToken \<and> vpToken \<noteq> [] \<and>
       params_get (fragment_params hash) ''smart_artifacts'' = Some smartArtifacts \<and>
       smartArtifacts \<noteq> [] \<and>
       (JSON_parse vpToken = None \<or> JSON_parse smartArtifacts = None)))"
proof (cases "hash = [] \<or> hash = ''#''")
  case True
  then have "parseReturnHash hash = Inr None"
    by (simp only: parseReturnHash_params if_True)
  then show ?thesis by simp
next
  case False
  then have "parseReturnHash hash = return_of_params (fragment_params hash)"
    by (simp only: parseReturnHash_params if_False)
  then show ?thesis
    using False return_of_params_cases [of "fragment_params hash"] by simp
qed

theorem parseReturnHash_cases_witness:
  "parseReturnHash [] = Inr None \<and>
   params_get (fragment_params ''#section-2'') ''state'' = None \<and>
   parseReturnHash ''#section-2'' = Inr None \<and>
   parseReturnHash ''#state=abc&error=access_denied&error_description=User+declined''
     = Inr (Some (ParsedReturnError ''abc'' ''access_denied'' (Some ''User declined''))) \<and>
   parseReturnHash
     ''#vp_token=%7B%22coverage-1%22%3A%5B%7B%22artifact%22%3A0%7D%5D%7D&smart_artifacts=%5B%7B%22type%22%3A%22shc%22%2C%22data%22%3A%22x%22%7D%5D&state=abc''
     = Inr (Some (ParsedReturnSuccess ''abc''
         (JObj [(''coverage-1'', JArr [JObj [(''artifact'', JNum 0)]])])
         (JArr [JObj [(''type'', JStr ''shc''), (''data'', JStr ''x'')]])))"
proof -
  have s: "params_get (fragment_params ''#section-2'') ''state'' = None"
    by code_simp
  then have "\<not> truthy_string (params_get (fragment_params ''#section-2'') ''state'')"
    by (simp add: truthy_string_def)
  with parseReturnHash_cases [of "''#section-2''"]
  have a: "parseReturnHash ''#section-2'' = Inr None" by blast
  from parseReturnHash_cases [of "[]"] have b: "parseReturnHash [] = Inr None" by blast
  have c: "parseReturnHash ''#state=abc&error=access_denied&error_description=User+declined''
     = Inr (Some (ParsedReturnError ''abc'' ''access_denied'' (Some ''User declined'')))"
    by code_simp
  have d: "parseReturnHash
     ''#vp_token=%7B%22coverage-1%22%3A%5B%7B%22artifact%22%3A0%7D%5D%7D&smart_artifacts=%5B%7B%22type%22%3A%22shc%22%2C%22data%22%3A%22x%22%7D%5D&state=abc''
     = Inr (Some (ParsedReturnSuccess ''abc''
         (JObj [(''coverage-1'', JArr [JObj [(''artifact'', JNum 0)]])])
         (JArr [JObj [(''type'', JStr ''shc''), (''data'', JStr ''x'')]])))"
    by code_simp
  show ?thesis using a b c d s by simp
qed

text \<open>
  The claim as first stated fails: a fragment with \<^verbatim>\<open>state\<close>, \<^verbatim>\<open>vp_token\<close> and
  \<^verbatim>\<open>smart_artifacts\<close> whose \<^verbatim>\<open>vp_token\<close> is not JSON makes the function throw.
\<close>

theorem parseReturnHash_throws:
  "parseReturnHash ''#state=abc&vp_token=x&smart_artifacts=[]'' = Inl SyntaxError"
  by code_simp


end
